theory Spec2Isabelle
  imports Complex_Main
begin

section \<open>Values, exceptions and arrays\<close>

text \<open>
  The Sample class of \<open>src/emu_like/sample.py\<close> works on NumPy arrays of floats. A float
  is a real number or one of the three special values; rounding is not modelled. Every
  \<open>raise\<close> of the source, and every exception of a library call the source makes, is a
  value of \<open>exn\<close>; a method returns \<open>exn + result\<close>.
\<close>

datatype npfloat = Fin real | PInf | NInf | NaN

datatype exn =
    FileNotFoundError string
  | NotADirectoryError
  | ValueError string
  | IndexError
  | TypeError
  | KeyError string
  | AttributeError string
  | OtherError string

text \<open>A two-dimensional array carries its shape: \<open>shape[0]\<close> is the number of rows,
  \<open>shape[1]\<close> is kept apart, since an array without rows still has columns.\<close>

record 'a array2 =
  ncols :: nat
  rws :: "'a list list"

definition shape0 :: "'a array2 \<Rightarrow> nat" where
  "shape0 a = length (rws a)"

definition shape1 :: "'a array2 \<Rightarrow> nat" where
  "shape1 a = ncols a"

definition rect :: "'a array2 \<Rightarrow> bool" where
  "rect a = list_all (\<lambda>r. length r = ncols a) (rws a)"

text \<open>What \<open>np.genfromtxt\<close> returns: the parsed table squeezed, so a table with a single
  row or a single column comes back one-dimensional, a single number zero-dimensional.\<close>

datatype 'a ndarray = A0 'a | A1 "'a list" | A2 "'a array2"

definition isfinite :: "npfloat \<Rightarrow> bool" where
  "isfinite v = (case v of Fin _ \<Rightarrow> True | _ \<Rightarrow> False)"

fun fl_le :: "npfloat \<Rightarrow> npfloat \<Rightarrow> bool" where
  "fl_le NInf _ = True"
| "fl_le _ PInf = True"
| "fl_le (Fin a) (Fin b) = (a \<le> b)"
| "fl_le _ _ = False"

text \<open>\<open>np.minimum\<close> and \<open>np.maximum\<close> of two floats: a NaN wins.\<close>

definition minimum2 :: "npfloat \<Rightarrow> npfloat \<Rightarrow> npfloat" where
  "minimum2 a b = (if a = NaN \<or> b = NaN then NaN else if fl_le a b then a else b)"

definition maximum2 :: "npfloat \<Rightarrow> npfloat \<Rightarrow> npfloat" where
  "maximum2 a b = (if a = NaN \<or> b = NaN then NaN else if fl_le a b then b else a)"

definition zero_size_msg :: string where
  "zero_size_msg = ''zero-size array to reduction operation which has no identity''"

text \<open>\<open>np.min(a, axis=0)\<close> and \<open>np.max(a, axis=0)\<close>: one value per column, folded down the
  rows; an array without rows has nothing to start from.\<close>

definition column :: "'a array2 \<Rightarrow> nat \<Rightarrow> 'a list" where
  "column a j = map (\<lambda>r. r ! j) (rws a)"

definition reduce_axis0 :: "(npfloat \<Rightarrow> npfloat \<Rightarrow> npfloat) \<Rightarrow> npfloat array2 \<Rightarrow> exn + npfloat list" where
  "reduce_axis0 f a =
     (if rws a = [] then Inl (ValueError zero_size_msg)
      else Inr (map (\<lambda>j. let c = column a j in foldl f (hd c) (tl c)) [0..<ncols a]))"

definition np_min0 :: "npfloat array2 \<Rightarrow> exn + npfloat list" where
  "np_min0 = reduce_axis0 minimum2"

definition np_max0 :: "npfloat array2 \<Rightarrow> exn + npfloat list" where
  "np_max0 = reduce_axis0 maximum2"

text \<open>\<open>x_ranges\<close>: the pairs (min, max) of every column.\<close>

definition col_ranges :: "npfloat array2 \<Rightarrow> exn + (npfloat \<times> npfloat) list" where
  "col_ranges a =
     (case np_min0 a of Inl e \<Rightarrow> Inl e
      | Inr lo \<Rightarrow> (case np_max0 a of Inl e \<Rightarrow> Inl e | Inr hi \<Rightarrow> Inr (zip lo hi)))"

subsection \<open>Python indexing\<close>

text \<open>The \<open>columns\<close> argument of \<open>_load_array\<close>: a slice object (start, stop; no step) or a
  list of column indices.\<close>

datatype columns = Slice "int option" "int option" | Cols "int list"

definition slice_bound :: "nat \<Rightarrow> int option \<Rightarrow> nat \<Rightarrow> nat" where
  "slice_bound n b dflt =
     (case b of None \<Rightarrow> dflt
      | Some i \<Rightarrow> if i < 0 then nat (max 0 (int n + i)) else min n (nat i))"

fun index_list :: "nat \<Rightarrow> int list \<Rightarrow> exn + nat list" where
  "index_list n [] = Inr []"
| "index_list n (i # is) =
     (if - int n \<le> i \<and> i < int n
      then (case index_list n is of Inl e \<Rightarrow> Inl e
            | Inr js \<Rightarrow> Inr (nat (if i < 0 then int n + i else i) # js))
      else Inl IndexError)"

text \<open>The positions an index expression selects along an axis of length \<open>n\<close>.\<close>

definition selected :: "columns \<Rightarrow> nat \<Rightarrow> exn + nat list" where
  "selected cs n =
     (case cs of
        Slice a b \<Rightarrow> Inr [slice_bound n a 0 ..< slice_bound n b n]
      | Cols is \<Rightarrow> index_list n is)"

text \<open>\<open>array[:, columns]\<close>\<close>

definition take_columns :: "'a array2 \<Rightarrow> columns \<Rightarrow> exn + 'a array2" where
  "take_columns a cs =
     (case selected cs (ncols a) of Inl e \<Rightarrow> Inl e
      | Inr js \<Rightarrow> Inr \<lparr>ncols = length js, rws = map (\<lambda>r. map (\<lambda>j. r ! j) js) (rws a)\<rparr>)"

text \<open>\<open>names[columns]\<close> on an array of names\<close>

definition take_names :: "string list \<Rightarrow> columns \<Rightarrow> exn + string list" where
  "take_names ns cs =
     (case selected cs (length ns) of Inl e \<Rightarrow> Inl e
      | Inr js \<Rightarrow> Inr (map (\<lambda>j. ns ! j) js))"

text \<open>\<open>a[i]\<close> for a row index \<open>i \<ge> 0\<close>, and \<open>a[k:]\<close>\<close>

definition row_at :: "'a array2 \<Rightarrow> nat \<Rightarrow> exn + 'a list" where
  "row_at a i = (if i < shape0 a then Inr (rws a ! i) else Inl IndexError)"

definition rows_from :: "'a array2 \<Rightarrow> nat \<Rightarrow> 'a list list" where
  "rows_from a k = drop k (rws a)"

text \<open>\<open>a[mask]\<close> with a boolean mask over the rows\<close>

definition mask_rows :: "'a array2 \<Rightarrow> bool list \<Rightarrow> exn + 'a array2" where
  "mask_rows a m =
     (if length m = shape0 a
      then Inr (a\<lparr>rws := map fst (filter snd (zip (rws a) m))\<rparr>)
      else Inl IndexError)"

definition dim_msg :: string where
  "dim_msg = ''all the input array dimensions except for the concatenation axis must match exactly''"

text \<open>\<open>np.vstack((y, y_val))\<close> with a one-dimensional \<open>y_val\<close>, and \<open>np.vstack\<close> of a
  tuple of two-dimensional arrays.\<close>

definition vstack_row :: "'a array2 \<Rightarrow> 'a list \<Rightarrow> exn + 'a array2" where
  "vstack_row a r =
     (if length r = ncols a then Inr (a\<lparr>rws := rws a @ [r]\<rparr>)
      else Inl (ValueError dim_msg))"

definition need_array_msg :: string where
  "need_array_msg = ''need at least one array to concatenate''"

definition vstack :: "'a array2 list \<Rightarrow> exn + 'a array2" where
  "vstack as =
     (case as of
        [] \<Rightarrow> Inl (ValueError need_array_msg)
      | a # _ \<Rightarrow>
          if list_all (\<lambda>b. ncols b = ncols a) as
          then Inr \<lparr>ncols = ncols a, rws = concat (map rws as)\<rparr>
          else Inl (ValueError dim_msg))"

definition ragged_msg :: string where
  "ragged_msg = ''setting an array element with a sequence: inhomogeneous shape''"

text \<open>\<open>np.array(rows)\<close> of a list of one-dimensional rows: two-dimensional when there is a
  row, one-dimensional (and empty) when there is none.\<close>

definition np_array :: "'a list list \<Rightarrow> exn + 'a ndarray" where
  "np_array rs =
     (case rs of
        [] \<Rightarrow> Inr (A1 [])
      | r # _ \<Rightarrow>
          if list_all (\<lambda>q. length q = length r) rs
          then Inr (A2 \<lparr>ncols = length r, rws = rs\<rparr>)
          else Inl (ValueError ragged_msg))"

subsection \<open>Strings and paths\<close>

definition tab :: char where
  "tab = CHR 0x09"

definition hash :: char where
  "hash = CHR ''#''"

text \<open>The ASCII characters \<open>str.strip()\<close> removes.\<close>

definition is_space :: "char \<Rightarrow> bool" where
  "is_space c = (c \<in> set [CHR '' '', CHR 0x09, CHR 0x0A, CHR 0x0B, CHR 0x0C, CHR 0x0D,
                            CHR 0x1C, CHR 0x1D, CHR 0x1E, CHR 0x1F])"

definition strip :: "string \<Rightarrow> string" where
  "strip s = rev (dropWhile is_space (rev (dropWhile is_space s)))"

text \<open>\<open>s.split(d)\<close> for a one-character delimiter, and \<open>d.join(ws)\<close>.\<close>

fun split_on :: "char \<Rightarrow> string \<Rightarrow> string list" where
  "split_on d [] = [[]]"
| "split_on d (c # cs) =
     (if c = d then [] # split_on d cs
      else (case split_on d cs of [] \<Rightarrow> [[c]] | w # ws \<Rightarrow> (c # w) # ws))"

fun join_with :: "string \<Rightarrow> string list \<Rightarrow> string" where
  "join_with d [] = []"
| "join_with d [w] = w"
| "join_with d (w # ws) = w @ d @ join_with d ws"

definition startswith :: "string \<Rightarrow> string \<Rightarrow> bool" where
  "startswith s pre = (take (length pre) s = pre)"

text \<open>\<open>os.path.join(a, b)\<close> on a POSIX system\<close>

definition path_join :: "string \<Rightarrow> string \<Rightarrow> string" where
  "path_join a b =
     (if startswith b ''/'' then b
      else if a = [] \<or> last a = CHR ''/'' then a @ b
      else a @ ''/'' @ b)"

section \<open>The array codec\<close>

text \<open>
  A text file is its lines. A line either holds numbers (\<open>Data\<close>, already parsed: the
  \<open>%.18e\<close> format of \<open>np.savetxt\<close> writes a float so that it reads back the same), or it
  holds none (\<open>Comment\<close>, with its text: a comment line or a blank one).
\<close>

datatype line = Comment string | Data "npfloat list"

definition data_rows :: "line list \<Rightarrow> npfloat list list" where
  "data_rows ls = filter (\<lambda>r. r \<noteq> []) (concat (map (\<lambda>l. case l of Data r \<Rightarrow> [r] | Comment _ \<Rightarrow> []) ls))"

definition columns_msg :: string where
  "columns_msg = ''Some errors were detected: the number of columns changed''"

text \<open>\<open>np.genfromtxt\<close> on the lines of a file: comment and blank lines are skipped, rows of
  different lengths are refused, and the result is squeezed.\<close>

definition genfromtxt_lines :: "line list \<Rightarrow> exn + npfloat ndarray" where
  "genfromtxt_lines ls =
     (case data_rows ls of
        [] \<Rightarrow> Inr (A1 [])
      | r # rs \<Rightarrow>
          if \<not> list_all (\<lambda>q. length q = length r) rs then Inl (ValueError columns_msg)
          else if rs = [] \<and> length r = 1 then Inr (A0 (hd r))
          else if rs = [] then Inr (A1 r)
          else if length r = 1 then Inr (A1 (map hd (r # rs)))
          else Inr (A2 \<lparr>ncols = length r, rws = r # rs\<rparr>))"

definition not_found_msg :: "string \<Rightarrow> string" where
  "not_found_msg p = p @ '' not found.''"

definition genfromtxt :: "(string \<Rightarrow> line list option) \<Rightarrow> string \<Rightarrow> exn + npfloat ndarray" where
  "genfromtxt files p =
     (case files p of
        None \<Rightarrow> Inl (FileNotFoundError (not_found_msg p))
      | Some ls \<Rightarrow> genfromtxt_lines ls)"

text \<open>The loop of \<open>_try_to_load_names_array\<close>: read lines while they start with the comment
  marker, keeping the last one; \<open>readline\<close> at the end of the file returns the empty
  string, which stops the loop.\<close>

fun last_comment :: "line list \<Rightarrow> string option \<Rightarrow> string option" where
  "last_comment [] names = names"
| "last_comment (Comment s # ls) names =
     (if startswith s [hash] then last_comment ls (Some s) else names)"
| "last_comment (Data r # ls) names = names"

definition try_to_load_names_array :: "(string \<Rightarrow> line list option) \<Rightarrow> string \<Rightarrow> nat \<Rightarrow> exn + string list option" where
  "try_to_load_names_array files p n_names =
     (case files p of
        None \<Rightarrow> Inl (FileNotFoundError (not_found_msg p))
      | Some ls \<Rightarrow>
          (case last_comment ls None of
             None \<Rightarrow> Inr None
           | Some s \<Rightarrow>
               (let names = map strip (split_on tab (filter (\<lambda>c. c \<noteq> hash) s))
                in if n_names \<noteq> 0
                   then (if n_names = length names then Inr (Some names) else Inr None)
                   else Inr (Some names))))"

text \<open>\<open>_load_array\<close>. A one-dimensional array becomes a single column; the shape of a
  zero-dimensional one has no entry 1.\<close>

definition load_array :: "(string \<Rightarrow> line list option) \<Rightarrow> string \<Rightarrow> columns \<Rightarrow> exn + (npfloat array2 \<times> string list option)" where
  "load_array files p cs =
     (case genfromtxt files p of
        Inl e \<Rightarrow> Inl e
      | Inr (A0 v) \<Rightarrow> Inl IndexError
      | Inr arr \<Rightarrow>
          (let array = (case arr of A1 vs \<Rightarrow> \<lparr>ncols = 1, rws = map (\<lambda>v. [v]) vs\<rparr> | A2 a \<Rightarrow> a)
           in case try_to_load_names_array files p (shape1 array) of
                Inl e \<Rightarrow> Inl e
              | Inr names \<Rightarrow>
                  (case take_columns array cs of
                     Inl e \<Rightarrow> Inl e
                   | Inr array' \<Rightarrow>
                       (case names of
                          None \<Rightarrow> Inr (array', None)
                        | Some ns \<Rightarrow>
                            (case take_names ns cs of
                               Inl e \<Rightarrow> Inl e
                             | Inr ns' \<Rightarrow> Inr (array', Some ns'))))))"

section \<open>The Sample class\<close>

text \<open>Parameter and settings dictionaries (YAML documents) keep their key order.\<close>

datatype pvalue = PNum real | PInt int | PStr string | PDict "(string \<times> pvalue) list"

type_synonym settings_dict = "(string \<times> pvalue) list"

text \<open>The attributes \<open>__init__\<close> sets, each \<open>None\<close> at first. The arrays \<open>x\<close> and \<open>y\<close> are
  the fields \<open>x_data\<close> and \<open>y_data\<close>.\<close>

record sample =
  x_data :: "npfloat array2 option"
  y_data :: "npfloat array2 option"
  x_names :: "string list option"
  y_names :: "string list option"
  n_samples :: "nat option"
  n_x :: "nat option"
  n_y :: "nat option"
  settings :: "settings_dict option"
  path :: "string option"
  x_train :: "npfloat array2 option"
  y_train :: "npfloat array2 option"
  x_test :: "npfloat array2 option"
  y_test :: "npfloat array2 option"
  x_ranges :: "(npfloat \<times> npfloat) list option"

definition Sample :: sample where
  "Sample = \<lparr>x_data = None, y_data = None, x_names = None, y_names = None,
             n_samples = None, n_x = None, n_y = None, settings = None, path = None,
             x_train = None, y_train = None, x_test = None, y_test = None,
             x_ranges = None\<rparr>"

text \<open>
  What the class reaches outside \<open>sample.py\<close>. The file names are the entries
  \<open>de.file_names[...]['name']\<close> of \<open>defaults.py\<close>; \<open>params_load\<close> is what
  \<open>Params().load(path)\<close> does at a path (it returns the settings or raises); \<open>text_files\<close>
  gives the lines of the text file at a path; \<open>fng\<close> resolves the name of a sampled
  function (\<open>eval('fng.' + name)\<close>), which takes a row of \<open>x\<close>, the names, the parameters and
  an optional model, and returns a row of \<open>y\<close>, its names and the model; \<open>get_x\<close> is
  \<open>smp.Sampler().choose_one(spacing).get_x(params, names, n_samples)\<close>.
\<close>

record default_names =
  fn_params :: string
  fn_x_sample :: string
  fn_y_sample :: string

type_synonym 'm sampled_function =
  "npfloat list \<Rightarrow> string list option \<Rightarrow> pvalue \<Rightarrow> 'm option
     \<Rightarrow> npfloat list \<times> string list option \<times> 'm"

record 'm env =
  isdir :: "string \<Rightarrow> bool"
  isfile :: "string \<Rightarrow> bool"
  text_files :: "string \<Rightarrow> line list option"
  params_load :: "string \<Rightarrow> exn + settings_dict"
  file_names :: default_names
  fng :: "string \<Rightarrow> 'm sampled_function option"
  get_x :: "string \<Rightarrow> pvalue \<Rightarrow> string list \<Rightarrow> int \<Rightarrow> exn + npfloat array2"

subsection \<open>load\<close>

definition warn_settings :: string where
  "warn_settings = ''Unable to load parameter file!''"

definition path_msg :: string where
  "path_msg = ''Something is wrong with your sample path. I could not identify the x and y paths''"

text \<open>"Load settings, if any": only \<open>NotADirectoryError\<close> is caught, and answered with a
  warning; any other exception of the settings loader leaves \<open>load\<close>. The result is the
  sample and the warnings printed.\<close>

definition load_settings :: "'m env \<Rightarrow> sample \<Rightarrow> string \<Rightarrow> exn + (sample \<times> string list)" where
  "load_settings env self p =
     (let path_settings = path_join p (fn_params (file_names env))
      in case params_load env path_settings of
           Inr st \<Rightarrow> Inr (self\<lparr>settings := Some st\<rparr>, [])
         | Inl NotADirectoryError \<Rightarrow> Inr (self, [warn_settings])
         | Inl e \<Rightarrow> Inl e)"

text \<open>Truth value of a path argument: \<open>None\<close> and the empty string are false.\<close>

definition given :: "string option \<Rightarrow> bool" where
  "given p = (case p of None \<Rightarrow> False | Some s \<Rightarrow> s \<noteq> [])"

text \<open>"Assign paths to x and y": the cases in the order of the source. The result is the
  sample, the two paths and the two column selections.\<close>

definition assign_paths ::
  "'m env \<Rightarrow> sample \<Rightarrow> string \<Rightarrow> string option \<Rightarrow> columns \<Rightarrow> columns
     \<Rightarrow> exn + (sample \<times> string \<times> string \<times> columns \<times> columns)" where
  "assign_paths env self p p_y columns_x columns_y =
     (if p \<noteq> [] \<and> given p_y then Inr (self, p, the p_y, columns_x, columns_y)
      else if isdir env p then
        Inr (self\<lparr>path := Some p\<rparr>,
             path_join p (fn_x_sample (file_names env)),
             path_join p (fn_y_sample (file_names env)), columns_x, columns_y)
      else if isfile env p then
        Inr (self, p, p, Slice None (Some (- 1)), Slice (Some (- 1)) None)
      else Inl (FileNotFoundError path_msg))"

text \<open>"Remove non finite if requested": \<open>np.any(np.isfinite(y), axis=1)\<close> is the mask.\<close>

definition only_finites :: "npfloat array2 \<Rightarrow> bool list" where
  "only_finites y = map (\<lambda>r. list_ex isfinite r) (rws y)"

definition remove_non_finite_rows ::
  "bool \<Rightarrow> npfloat array2 \<Rightarrow> npfloat array2 \<Rightarrow> exn + (npfloat array2 \<times> npfloat array2)" where
  "remove_non_finite_rows remove_non_finite x y =
     (if remove_non_finite then
        (case mask_rows x (only_finites y) of
           Inl e \<Rightarrow> Inl e
         | Inr x' \<Rightarrow>
             (case mask_rows y (only_finites y) of
                Inl e \<Rightarrow> Inl e
              | Inr y' \<Rightarrow> Inr (x', y')))
      else Inr (x, y))"

definition load ::
  "'m env \<Rightarrow> sample \<Rightarrow> string \<Rightarrow> string option \<Rightarrow> columns \<Rightarrow> columns \<Rightarrow> bool
     \<Rightarrow> exn + (sample \<times> string list)" where
  "load env self p p_y columns_x columns_y remove_non_finite =
     (case load_settings env self p of
        Inl e \<Rightarrow> Inl e
      | Inr (self1, warnings) \<Rightarrow>
     (case assign_paths env self1 p p_y columns_x columns_y of
        Inl e \<Rightarrow> Inl e
      | Inr (self2, path_x, path_y, cols_x, cols_y) \<Rightarrow>
     (case load_array (text_files env) path_x cols_x of
        Inl e \<Rightarrow> Inl e
      | Inr (x, xn) \<Rightarrow>
     (case load_array (text_files env) path_y cols_y of
        Inl e \<Rightarrow> Inl e
      | Inr (y, yn) \<Rightarrow>
     (case col_ranges x of
        Inl e \<Rightarrow> Inl e
      | Inr ranges \<Rightarrow>
     (case remove_non_finite_rows remove_non_finite x y of
        Inl e \<Rightarrow> Inl e
      | Inr (x', y') \<Rightarrow>
          Inr (self2\<lparr>x_data := Some x', x_names := xn, y_data := Some y', y_names := yn,
                     x_ranges := Some ranges,
                     n_samples := Some (shape0 x'), n_x := Some (shape1 x'),
                     n_y := Some (shape1 y')\<rparr>, warnings)))))))"

subsection \<open>Writing to the output folder\<close>

text \<open>A text file written at a path exists there afterwards.\<close>

definition write_text :: "'m env \<Rightarrow> string \<Rightarrow> line list \<Rightarrow> 'm env" where
  "write_text env p ls =
     env\<lparr>text_files := (text_files env)(p := Some ls), isfile := (isfile env)(p := True)\<rparr>"

text \<open>Modelled from the spec: \<open>io.Folder(path).create()\<close> of \<open>io.py\<close> (a folder utility), which
  is not among the sources: afterwards the path is a directory.\<close>

definition folder_create :: "'m env \<Rightarrow> string \<Rightarrow> 'm env" where
  "folder_create env p = env\<lparr>isdir := (isdir env)(p := True)\<rparr>"

text \<open>Modelled from the spec: \<open>Params(content).save(name, root)\<close> of \<open>params.py\<close> (settings
  persistence: save and load a structured key-value document at a path), which is not
  among the sources: afterwards loading at that path returns the document.\<close>

definition params_save :: "'m env \<Rightarrow> string \<Rightarrow> string \<Rightarrow> settings_dict \<Rightarrow> 'm env" where
  "params_save env name root_dir content =
     env\<lparr>params_load := (params_load env)(path_join root_dir name := Inr content),
         isfile := (isfile env)(path_join root_dir name := True)\<rparr>"

definition newline :: char where
  "newline = CHR 0x0A"

text \<open>\<open>np.savetxt(f, rows, header=h)\<close>: the header, when it is not empty, one comment line
  for each of its lines, then the rows.\<close>

definition savetxt_lines :: "string \<Rightarrow> npfloat list list \<Rightarrow> line list" where
  "savetxt_lines header rs =
     (if header = [] then [] else map (\<lambda>l. Comment (''# '' @ l)) (split_on newline header))
     @ map Data rs"

definition save_settings :: "'m env \<Rightarrow> sample \<Rightarrow> string \<Rightarrow> exn + 'm env" where
  "save_settings env self p =
     (case settings self of
        None \<Rightarrow> Inl TypeError
      | Some st \<Rightarrow> Inr (params_save env (fn_params (file_names env)) p st))"

definition save_x :: "'m env \<Rightarrow> sample \<Rightarrow> string \<Rightarrow> exn + 'm env" where
  "save_x env self p =
     (let fpath = path_join p (fn_x_sample (file_names env))
      in case x_names self of
           None \<Rightarrow> Inl TypeError
         | Some ns \<Rightarrow>
             (case x_data self of
                None \<Rightarrow> Inl (ValueError ''Expected 1D or 2D array, got 0D array instead'')
              | Some x \<Rightarrow> Inr (write_text env fpath (savetxt_lines (join_with [tab] ns) (rws x)))))"

text \<open>\<open>_save_y\<close>, on the rows of \<open>y\<close>: names that are \<open>None\<close> give the empty header.\<close>

definition save_y :: "'m env \<Rightarrow> string list option \<Rightarrow> npfloat list list \<Rightarrow> string \<Rightarrow> 'm env" where
  "save_y env names ys p =
     (let fpath = path_join p (fn_y_sample (file_names env));
          header = (case names of None \<Rightarrow> [] | Some ns \<Rightarrow> join_with [tab] ns)
      in write_text env fpath (savetxt_lines header ys))"

text \<open>\<open>_append_y\<close>: the file is opened for appending (created when missing) and one row is
  written.\<close>

definition append_y :: "'m env \<Rightarrow> string \<Rightarrow> npfloat list \<Rightarrow> 'm env" where
  "append_y env p y_val =
     (let fpath = path_join p (fn_y_sample (file_names env));
          old = (case text_files env fpath of None \<Rightarrow> [] | Some ls \<Rightarrow> ls)
      in write_text env fpath (old @ [Data y_val]))"

subsection \<open>generate\<close>

definition lookup :: "(string \<times> pvalue) list \<Rightarrow> string \<Rightarrow> exn + pvalue" where
  "lookup d k = (case map_of d k of None \<Rightarrow> Inl (KeyError k) | Some v \<Rightarrow> Inr v)"

text \<open>\<open>_is_varying\<close>: the entry is a dictionary with the key \<open>prior\<close>.\<close>

definition is_varying :: "(string \<times> pvalue) list \<Rightarrow> string \<Rightarrow> bool" where
  "is_varying params param =
     (case map_of params param of
        Some (PDict d) \<Rightarrow> ''prior'' \<in> set (map fst d)
      | _ \<Rightarrow> False)"

definition cobaya_loglike :: string where
  "cobaya_loglike = ''cobaya_loglike''"

definition resolve_fun :: "'m env \<Rightarrow> string \<Rightarrow> exn + 'm sampled_function" where
  "resolve_fun env name =
     (case fng env name of None \<Rightarrow> Inl (AttributeError name) | Some f \<Rightarrow> Inr f)"

text \<open>"Get correct parameters to be passed to fun": \<open>params['params']\<close> for
  \<open>cobaya_loglike\<close>, \<open>params\<close> otherwise.\<close>

definition sampled_params_of :: "string \<Rightarrow> pvalue \<Rightarrow> exn + pvalue" where
  "sampled_params_of sampled_function params =
     (if sampled_function = cobaya_loglike
      then (case params of PDict d \<Rightarrow> lookup d ''params'' | _ \<Rightarrow> Inl TypeError)
      else Inr params)"

text \<open>The loop "Sample y" of \<open>generate\<close>, over the rows \<open>x[1:]\<close>: the list \<open>y\<close> grows by one
  row and, when saving incrementally, so does the file.\<close>

fun sample_y ::
  "'m sampled_function \<Rightarrow> string list option \<Rightarrow> pvalue \<Rightarrow> 'm \<Rightarrow> bool \<Rightarrow> string
     \<Rightarrow> npfloat list list \<Rightarrow> npfloat list list \<times> 'm env \<Rightarrow> npfloat list list \<times> 'm env" where
  "sample_y f names params model save_incrementally output_path [] (ys, env) = (ys, env)"
| "sample_y f names params model save_incrementally output_path (x # xs) (ys, env) =
     (let y_val = fst (f x names params (Some model));
          ys' = ys @ [y_val];
          env' = (if save_incrementally then append_y env output_path y_val else env)
      in sample_y f names params model save_incrementally output_path xs (ys', env'))"

text \<open>The state of \<open>generate\<close> when it enters the loop: the sample, the outside world, the
  function, the model, the rows still to evaluate and the list \<open>y\<close>.\<close>

record 'm loop_state =
  ls_self :: sample
  ls_env :: "'m env"
  ls_fun :: "'m sampled_function"
  ls_model :: 'm
  ls_rows :: "npfloat list list"
  ls_y :: "npfloat list list"

text \<open>\<open>generate\<close> up to the loop. Saving incrementally needs the output path.\<close>

definition generate_begin ::
  "'m env \<Rightarrow> sample \<Rightarrow> pvalue \<Rightarrow> string \<Rightarrow> int \<Rightarrow> string \<Rightarrow> bool \<Rightarrow> string option
     \<Rightarrow> exn + 'm loop_state" where
  "generate_begin env self params sampled_function n spacing save_incrementally output_path =
     (if save_incrementally \<and> output_path = None then Inl TypeError else
      let out = (case output_path of None \<Rightarrow> [] | Some p \<Rightarrow> p);
          self1 = (if save_incrementally then self\<lparr>path := output_path\<rparr> else self);
          env1 = (if save_incrementally then folder_create env out else env);
          params_name = (if sampled_function = cobaya_loglike then ''cobaya'' else ''params'');
          self2 = self1\<lparr>settings := Some [(params_name, params),
                                            (''sampled_function'', PStr sampled_function),
                                            (''n_samples'', PInt n),
                                            (''spacing'', PStr spacing)]\<rparr>
      in case (if save_incrementally then save_settings env1 self2 out else Inr env1) of
           Inl e \<Rightarrow> Inl e
         | Inr env2 \<Rightarrow>
      (case resolve_fun env2 sampled_function of
           Inl e \<Rightarrow> Inl e
         | Inr f \<Rightarrow>
      (case sampled_params_of sampled_function params of
           Inl e \<Rightarrow> Inl e
         | Inr sampled_params \<Rightarrow>
      (case sampled_params of
           PDict sp \<Rightarrow>
             (let self3 = self2\<lparr>x_names := Some (filter (is_varying sp) (map fst sp))\<rparr>
              in case get_x env2 spacing sampled_params (the (x_names self3)) n of
                   Inl e \<Rightarrow> Inl e
                 | Inr x \<Rightarrow>
              (let self4 = self3\<lparr>x_data := Some x, n_x := Some (shape1 x)\<rparr>
               in case (if save_incrementally then save_x env2 self4 out else Inr env2) of
                    Inl e \<Rightarrow> Inl e
                  | Inr env3 \<Rightarrow>
               (case row_at x 0 of
                    Inl e \<Rightarrow> Inl e
                  | Inr x0 \<Rightarrow>
                      (case f x0 (x_names self4) params None of
                         (y_val, yn, model) \<Rightarrow>
                           (let self5 = self4\<lparr>y_names := yn\<rparr>;
                                env4 = (if save_incrementally then save_y env3 yn [y_val] out
                                        else env3)
                            in Inr \<lparr>ls_self = self5, ls_env = env4, ls_fun = f,
                                     ls_model = model, ls_rows = rows_from x 1,
                                     ls_y = [y_val]\<rparr>)))))
         | _ \<Rightarrow> Inl TypeError))))"

text \<open>\<open>generate\<close>: the start, the loop, then \<open>y\<close> becomes an array and \<open>n_y\<close> its second
  dimension.\<close>

definition generate ::
  "'m env \<Rightarrow> sample \<Rightarrow> pvalue \<Rightarrow> string \<Rightarrow> int \<Rightarrow> string \<Rightarrow> bool \<Rightarrow> string option
     \<Rightarrow> exn + (sample \<times> 'm env)" where
  "generate env self params sampled_function n spacing save_incrementally output_path =
     (case generate_begin env self params sampled_function n spacing save_incrementally output_path of
        Inl e \<Rightarrow> Inl e
      | Inr st \<Rightarrow>
          (case sample_y (ls_fun st) (x_names (ls_self st)) params (ls_model st) save_incrementally
                  (case output_path of None \<Rightarrow> [] | Some p \<Rightarrow> p) (ls_rows st) (ls_y st, ls_env st) of
             (ys, env') \<Rightarrow>
               (case np_array ys of
                  Inl e \<Rightarrow> Inl e
                | Inr (A2 y) \<Rightarrow>
                    Inr ((ls_self st)\<lparr>y_data := Some y, n_y := Some (shape1 y)\<rparr>, env')
                | Inr _ \<Rightarrow> Inl IndexError)))"

text \<open>The outside world when a run that saves incrementally is stopped after the row
  \<open>k\<close> of \<open>y\<close> has been written (\<open>1 \<le> k\<close>): the same start and the same loop, over the first
  \<open>k - 1\<close> of the remaining rows only.\<close>

definition generate_stopped ::
  "nat \<Rightarrow> 'm env \<Rightarrow> sample \<Rightarrow> pvalue \<Rightarrow> string \<Rightarrow> int \<Rightarrow> string \<Rightarrow> string
     \<Rightarrow> exn + 'm env" where
  "generate_stopped k env self params sampled_function n spacing output_path =
     (case generate_begin env self params sampled_function n spacing True (Some output_path) of
        Inl e \<Rightarrow> Inl e
      | Inr st \<Rightarrow>
          Inr (snd (sample_y (ls_fun st) (x_names (ls_self st)) params (ls_model st) True
                      output_path (take (k - 1) (ls_rows st)) (ls_y st, ls_env st))))"

subsection \<open>resume\<close>

text \<open>\<open>settings['n_samples'] - y.shape[0]\<close>: a number minus the row count.\<close>

definition remaining_steps :: "pvalue \<Rightarrow> nat \<Rightarrow> exn + real" where
  "remaining_steps v k =
     (case v of
        PInt i \<Rightarrow> Inr (of_int (i - int k))
      | PNum r \<Rightarrow> Inr (r - real k)
      | _ \<Rightarrow> Inl TypeError)"

text \<open>The loop "Sample y" of \<open>resume\<close>, over the rows \<open>x[y.shape[0]:]\<close>: each new row is
  stacked under \<open>y\<close> and, when saving incrementally, appended to the file in \<open>self.path\<close>.\<close>

fun resume_loop ::
  "'m sampled_function \<Rightarrow> string list option \<Rightarrow> pvalue \<Rightarrow> 'm \<Rightarrow> bool \<Rightarrow> string option
     \<Rightarrow> npfloat list list \<Rightarrow> npfloat array2 \<times> 'm env \<Rightarrow> exn + (npfloat array2 \<times> 'm env)" where
  "resume_loop f names params model save_incrementally p [] (y, env) = Inr (y, env)"
| "resume_loop f names params model save_incrementally p (x # xs) (y, env) =
     (let y_val = fst (f x names params (Some model))
      in case vstack_row y y_val of
           Inl e \<Rightarrow> Inl e
         | Inr y' \<Rightarrow>
             (case (if save_incrementally
                    then (case p of None \<Rightarrow> Inl TypeError | Some d \<Rightarrow> Inr (append_y env d y_val))
                    else Inr env) of
                Inl e \<Rightarrow> Inl e
              | Inr env' \<Rightarrow> resume_loop f names params model save_incrementally p xs (y', env')))"

definition resume :: "'m env \<Rightarrow> sample \<Rightarrow> bool \<Rightarrow> exn + (sample \<times> 'm env)" where
  "resume env self save_incrementally =
     (case settings self of
        None \<Rightarrow> Inl TypeError
      | Some st \<Rightarrow>
     (case lookup st ''n_samples'' of
        Inl e \<Rightarrow> Inl e
      | Inr nv \<Rightarrow>
     (case y_data self of
        None \<Rightarrow> Inl (AttributeError ''shape'')
      | Some y \<Rightarrow>
     (case remaining_steps nv (shape0 y) of
        Inl e \<Rightarrow> Inl e
      | Inr remaining \<Rightarrow>
          if remaining = 0 then Inr (self, env)
          else
     (case lookup st ''sampled_function'' of
        Inl e \<Rightarrow> Inl e
      | Inr (PStr name) \<Rightarrow>
     (case resolve_fun env name of
        Inl e \<Rightarrow> Inl e
      | Inr f \<Rightarrow>
     (case (if name = cobaya_loglike then lookup st ''cobaya'' else lookup st ''params'') of
        Inl e \<Rightarrow> Inl e
      | Inr params \<Rightarrow>
     (case x_data self of
        None \<Rightarrow> Inl TypeError
      | Some x \<Rightarrow>
     (case row_at x 0 of
        Inl e \<Rightarrow> Inl e
      | Inr x0 \<Rightarrow>
          (let model = snd (snd (f x0 (x_names self) params None))
           in case resume_loop f (x_names self) params model save_incrementally (path self)
                     (rows_from x (shape0 y)) (y, env) of
                Inl e \<Rightarrow> Inl e
              | Inr (y', env') \<Rightarrow> Inr (self\<lparr>y_data := Some y'\<rparr>, env'))))))
      | Inr _ \<Rightarrow> Inl TypeError)))))"

subsection \<open>join\<close>

definition join_msg :: string where
  "join_msg = ''Samples can not be joined as they have different number of x variables''"

text \<open>\<open>join\<close> is for samples that were loaded. A sample whose array or count was never set
  is answered with \<open>TypeError\<close> here; what NumPy makes of \<open>None\<close> in its place is not
  modelled.\<close>

definition join :: "sample list \<Rightarrow> exn + sample" where
  "join samples =
     (case samples of
        [] \<Rightarrow> Inl IndexError
      | s0 # _ \<Rightarrow>
          if \<not> list_all (\<lambda>s. n_x s = n_x s0) samples then Inl (ValueError join_msg)
          else if \<not> list_all (\<lambda>s. n_y s = n_y s0) samples then Inl (ValueError join_msg)
          else
     (case those (map x_data samples) of
        None \<Rightarrow> Inl TypeError
      | Some xs \<Rightarrow>
     (case vstack xs of
        Inl e \<Rightarrow> Inl e
      | Inr x \<Rightarrow>
     (case col_ranges x of
        Inl e \<Rightarrow> Inl e
      | Inr ranges \<Rightarrow>
     (case those (map y_data samples) of
        None \<Rightarrow> Inl TypeError
      | Some ys \<Rightarrow>
     (case vstack ys of
        Inl e \<Rightarrow> Inl e
      | Inr y \<Rightarrow>
     (case those (map n_samples samples) of
        None \<Rightarrow> Inl TypeError
      | Some ns \<Rightarrow>
          Inr (Sample\<lparr>n_x := n_x s0, n_y := n_y s0, x_data := Some x,
                      x_ranges := Some ranges, y_data := Some y,
                      x_names := x_names s0, y_names := y_names s0,
                      n_samples := Some (sum_list ns)\<rparr>))))))))"

subsection \<open>train\_test\_split\<close>

text \<open>
  \<open>sklearn.model_selection.train_test_split(x, y, train_size=f, random_state=seed)\<close>, as
  the library documents it. Both arrays have the same number \<open>n\<close> of rows. A fraction is
  strictly between 0 and 1. The train set has \<open>floor(f * n)\<close> rows, the product taken in
  double precision, and the test set has the others; neither may be empty. The seed is
  an unsigned 32-bit number. The rows are drawn by one permutation of the row indices,
  whose first entries index the test set and whose next entries index the train set;
  every array is indexed by the same two index lists, and the result lists train and
  test of the first array, then of the second. Two operations of the library are
  parameters: \<open>permutation\<close> is \<open>RandomState(seed).permutation(n)\<close>, and \<open>fmul\<close> is the
  product of two doubles, rounded as the machine rounds it.
\<close>

definition rows_at :: "'a array2 \<Rightarrow> nat list \<Rightarrow> 'a array2" where
  "rows_at a idx = a\<lparr>rws := map (\<lambda>i. rws a ! i) idx\<rparr>"

definition split_indices ::
  "(int \<Rightarrow> nat \<Rightarrow> nat list) \<Rightarrow> (real \<Rightarrow> real \<Rightarrow> real) \<Rightarrow> nat \<Rightarrow> real \<Rightarrow> int
     \<Rightarrow> exn + (nat list \<times> nat list)" where
  "split_indices permutation fmul n train_size seed =
     (if train_size \<le> 0 \<or> 1 \<le> train_size
      then Inl (ValueError ''train_size should be in the (0, 1) range'')
      else let n_train = \<lfloor>fmul train_size (real n)\<rfloor>; n_test = int n - n_train
           in if n_train = 0 then Inl (ValueError ''the resulting train set will be empty'')
              else if n_train < 0 \<or> int n \<le> n_train \<or> n_test \<le> 0 \<or> int n \<le> n_test
              then Inl (ValueError ''test_size should be positive and smaller than the number of samples'')
              else if seed < 0 \<or> 2 ^ 32 \<le> seed
              then Inl (ValueError ''Seed must be between 0 and 2**32 - 1'')
              else let perm = permutation seed n
                   in Inr (take (nat n_train) (drop (nat n_test) perm), take (nat n_test) perm))"

definition skl_train_test_split ::
  "(int \<Rightarrow> nat \<Rightarrow> nat list) \<Rightarrow> (real \<Rightarrow> real \<Rightarrow> real) \<Rightarrow> 'a array2 \<Rightarrow> 'a array2 \<Rightarrow> real \<Rightarrow> int
     \<Rightarrow> exn + ('a array2 \<times> 'a array2 \<times> 'a array2 \<times> 'a array2)" where
  "skl_train_test_split permutation fmul a b train_size seed =
     (if shape0 a \<noteq> shape0 b
      then Inl (ValueError ''Found input variables with inconsistent numbers of samples'')
      else case split_indices permutation fmul (shape0 a) train_size seed of
             Inl e \<Rightarrow> Inl e
           | Inr (train, test) \<Rightarrow>
               Inr (rows_at a train, rows_at a test, rows_at b train, rows_at b test))"

text \<open>\<open>train_test_split\<close>: the four results are assigned in the order \<open>x_train\<close>, \<open>x_test\<close>,
  \<open>y_train\<close>, \<open>y_test\<close>. A sample without arrays is answered with \<open>TypeError\<close>.\<close>

definition train_test_split ::
  "(int \<Rightarrow> nat \<Rightarrow> nat list) \<Rightarrow> (real \<Rightarrow> real \<Rightarrow> real) \<Rightarrow> sample \<Rightarrow> real \<Rightarrow> int
     \<Rightarrow> exn + sample" where
  "train_test_split permutation fmul self frac_train seed =
     (case x_data self of
        None \<Rightarrow> Inl TypeError
      | Some x \<Rightarrow>
     (case y_data self of
        None \<Rightarrow> Inl TypeError
      | Some y \<Rightarrow>
     (case skl_train_test_split permutation fmul x y frac_train seed of
        Inl e \<Rightarrow> Inl e
      | Inr (a, b, c, d) \<Rightarrow>
          Inr (self\<lparr>x_train := Some a, x_test := Some b, y_train := Some c,
                    y_test := Some d\<rparr>))))"

section \<open>Predicates and example inputs\<close>

text \<open>A sample as \<open>load\<close> leaves it: both arrays and the row count are set, and \<open>n_x\<close>, \<open>n_y\<close>
  are the second dimensions of the arrays.\<close>

definition loaded :: "sample \<Rightarrow> bool" where
  "loaded s \<longleftrightarrow>
     x_data s \<noteq> None \<and> y_data s \<noteq> None \<and> n_samples s \<noteq> None \<and>
     n_x s = map_option shape1 (x_data s) \<and> n_y s = map_option shape1 (y_data s)"

text \<open>The pair (min, max) of one column, as \<open>col_ranges\<close> folds it.\<close>

definition column_range :: "npfloat list \<Rightarrow> npfloat \<times> npfloat" where
  "column_range c = (foldl minimum2 (hd c) (tl c), foldl maximum2 (hd c) (tl c))"

text \<open>Three loaded samples: two with two x-columns, one with three.\<close>

definition sample_a :: sample where
  "sample_a = Sample\<lparr>
     x_data := Some \<lparr>ncols = 2, rws = [[Fin 1, Fin 5], [Fin 3, Fin 4]]\<rparr>,
     y_data := Some \<lparr>ncols = 1, rws = [[Fin 10], [Fin 20]]\<rparr>,
     x_names := Some [''a'', ''b''], y_names := Some [''c''],
     n_samples := Some 2, n_x := Some 2, n_y := Some 1\<rparr>"

definition sample_b :: sample where
  "sample_b = Sample\<lparr>
     x_data := Some \<lparr>ncols = 2, rws = [[Fin 0, Fin 9]]\<rparr>,
     y_data := Some \<lparr>ncols = 1, rws = [[Fin 30]]\<rparr>,
     n_samples := Some 1, n_x := Some 2, n_y := Some 1\<rparr>"


text \<open>The file names of the canonical layout.\<close>

definition names0 :: default_names where
  "names0 = \<lparr>fn_params = ''params.yaml'', fn_x_sample = ''x_sample.txt'',
             fn_y_sample = ''y_sample.txt''\<rparr>"

text \<open>A pair of files \<open>x.txt\<close> (three rows, two columns) and \<open>y.txt\<close> (three rows, two
  columns: the first row holds a NaN, the last row nothing finite), and the device
  \<open>/dev/null\<close>, which is neither a directory nor a regular file. Below a path that is not
  a directory the settings loader raises \<open>NotADirectoryError\<close>.\<close>

definition env_pair :: "unit env" where
  "env_pair = \<lparr>
     isdir = (\<lambda>p. False),
     isfile = (\<lambda>p. p = ''x.txt'' \<or> p = ''y.txt''),
     text_files = (\<lambda>p.
       if p = ''x.txt'' then Some [Data [Fin 1, Fin 2], Data [Fin 3, Fin 4], Data [Fin 5, Fin 6]]
       else if p = ''y.txt'' then Some [Data [Fin 5, NaN], Data [Fin 6, Fin 7], Data [NaN, PInf]]
       else None),
     params_load = (\<lambda>p.
       if p = ''x.txt/params.yaml'' \<or> p = ''/dev/null/params.yaml'' then Inl NotADirectoryError
       else Inl (FileNotFoundError (not_found_msg p))),
     file_names = names0,
     fng = (\<lambda>name. None),
     get_x = (\<lambda>spacing params names n. Inl (OtherError ''no sampler''))\<rparr>"

text \<open>A single combined file \<open>xy.txt\<close> with one row of three numbers and no header.\<close>

definition env_single :: "unit env" where
  "env_single = \<lparr>
     isdir = (\<lambda>p. False),
     isfile = (\<lambda>p. p = ''xy.txt''),
     text_files = (\<lambda>p. if p = ''xy.txt'' then Some [Data [Fin 1, Fin 2, Fin 3]] else None),
     params_load = (\<lambda>p.
       if p = ''xy.txt/params.yaml'' then Inl NotADirectoryError
       else Inl (FileNotFoundError (not_found_msg p))),
     file_names = names0,
     fng = (\<lambda>name. None),
     get_x = (\<lambda>spacing params names n. Inl (OtherError ''no sampler''))\<rparr>"

text \<open>A directory \<open>out\<close> with the two sample files and no settings file.\<close>

definition env_dir :: "unit env" where
  "env_dir = \<lparr>
     isdir = (\<lambda>p. p = ''out''),
     isfile = (\<lambda>p. p = ''out/x_sample.txt'' \<or> p = ''out/y_sample.txt''),
     text_files = (\<lambda>p.
       if p = ''out/x_sample.txt''
       then Some [Comment ''# a'', Data [Fin 1], Data [Fin 2], Data [Fin 3]]
       else if p = ''out/y_sample.txt''
       then Some [Comment ''# c'', Data [Fin 10], Data [Fin 20], Data [Fin 30]]
       else None),
     params_load = (\<lambda>p. Inl (FileNotFoundError (not_found_msg p))),
     file_names = names0,
     fng = (\<lambda>name. None),
     get_x = (\<lambda>spacing params names n. Inl (OtherError ''no sampler''))\<rparr>"

text \<open>A stand-in for the random generator: for every seed, the row indices backwards.\<close>

definition backwards :: "int \<Rightarrow> nat \<Rightarrow> nat list" where
  "backwards seed n = rev [0..<n]"

text \<open>The consistency the specification asks of a sample: both arrays are set and have
  the same number of rows (\<open>arrays_agree\<close>, with \<open>n_x\<close> and \<open>n_y\<close> their second dimensions),
  and \<open>n_samples\<close> is that number (\<open>invariant\<close>). \<open>counted\<close> is what holds of a sample whose
  \<open>y\<close> may still be partial: the three counts are those of the arrays.\<close>

definition arrays_agree :: "sample \<Rightarrow> bool" where
  "arrays_agree s \<longleftrightarrow>
     x_data s \<noteq> None \<and> y_data s \<noteq> None \<and>
     map_option shape0 (x_data s) = map_option shape0 (y_data s) \<and>
     n_x s = map_option shape1 (x_data s) \<and> n_y s = map_option shape1 (y_data s)"

definition invariant :: "sample \<Rightarrow> bool" where
  "invariant s \<longleftrightarrow> arrays_agree s \<and> n_samples s = map_option shape0 (x_data s)"

definition counted :: "sample \<Rightarrow> bool" where
  "counted s \<longleftrightarrow>
     x_data s \<noteq> None \<and> y_data s \<noteq> None \<and>
     n_samples s = map_option shape0 (x_data s) \<and>
     n_x s = map_option shape1 (x_data s) \<and> n_y s = map_option shape1 (y_data s)"

text \<open>A sampled function, a sampler and parameters to run \<open>generate\<close> on: the function
  returns its row twice over and names it \<open>u\<close>, \<open>v\<close>; the sampler returns \<open>n\<close> rows, row \<open>i\<close>
  holding the number \<open>i\<close> for every varying parameter; of the two parameters, \<open>a\<close> has a
  prior and \<open>b\<close> is fixed.\<close>

definition twice :: "unit sampled_function" where
  "twice x names params model = (x @ x, Some [''u'', ''v''], ())"

definition grid :: "string \<Rightarrow> pvalue \<Rightarrow> string list \<Rightarrow> int \<Rightarrow> exn + npfloat array2" where
  "grid spacing params names n =
     Inr \<lparr>ncols = length names,
          rws = map (\<lambda>i. replicate (length names) (Fin (real i))) [0..<nat n]\<rparr>"

definition params_ex :: pvalue where
  "params_ex = PDict [(''a'', PDict [(''prior'', PDict [(''min'', PNum 0), (''max'', PNum 1)])]),
                      (''b'', PNum 3)]"

definition env_gen :: "unit env" where
  "env_gen = \<lparr>
     isdir = (\<lambda>p. False),
     isfile = (\<lambda>p. False),
     text_files = (\<lambda>p. None),
     params_load = (\<lambda>p. Inl (FileNotFoundError (not_found_msg p))),
     file_names = names0,
     fng = (\<lambda>name. if name = ''twice'' then Some twice else None),
     get_x = grid\<rparr>"

text \<open>A sample as \<open>load\<close> with \<open>remove_non_finite\<close> leaves it when no row of \<open>y\<close> held a finite
  value: the settings ask for two rows, and the arrays have none.\<close>

definition sample_empty :: sample where
  "sample_empty = Sample\<lparr>
     x_data := Some \<lparr>ncols = 1, rws = []\<rparr>,
     y_data := Some \<lparr>ncols = 2, rws = []\<rparr>,
     x_names := Some [''a''],
     n_samples := Some 0, n_x := Some 1, n_y := Some 2,
     settings := Some [(''params'', params_ex), (''sampled_function'', PStr ''twice''),
                       (''n_samples'', PInt 2), (''spacing'', PStr ''grid'')],
     path := Some ''out''\<rparr>"

text \<open>The scenario of the resumability property, in the words of the specification: a run
  that saves incrementally into \<open>out\<close> is stopped when \<open>k\<close> rows of \<open>y\<close> are written, the
  partial sample is loaded from the directory, and \<open>resume\<close> computes the remaining rows.\<close>

definition stop_and_resume ::
  "nat \<Rightarrow> 'm env \<Rightarrow> pvalue \<Rightarrow> string \<Rightarrow> int \<Rightarrow> string \<Rightarrow> string \<Rightarrow> exn + sample" where
  "stop_and_resume k env params sampled_function n spacing out =
     (case generate_stopped k env Sample params sampled_function n spacing out of
        Inl e \<Rightarrow> Inl e
      | Inr env1 \<Rightarrow>
          (case load env1 Sample out None (Slice None None) (Slice None None) False of
             Inl e \<Rightarrow> Inl e
           | Inr (s, w) \<Rightarrow>
               (case resume env1 s True of
                  Inl e \<Rightarrow> Inl e
                | Inr (s', env2) \<Rightarrow> Inr s')))"

text \<open>A partial sample as \<open>load\<close> returns it from a directory: three rows of \<open>x\<close>, two of
  \<open>y\<close>, and settings that ask for three.\<close>

definition sample_partial :: sample where
  "sample_partial = Sample\<lparr>
     x_data := Some \<lparr>ncols = 1, rws = [[Fin 0], [Fin 1], [Fin 2]]\<rparr>,
     y_data := Some \<lparr>ncols = 2, rws = [[Fin 0, Fin 0], [Fin 1, Fin 1]]\<rparr>,
     x_names := Some [''a''], y_names := Some [''u'', ''v''],
     n_samples := Some 3, n_x := Some 1, n_y := Some 2,
     settings := Some [(''params'', params_ex), (''sampled_function'', PStr ''twice''),
                       (''n_samples'', PInt 3), (''spacing'', PStr ''grid'')],
     path := Some ''out''\<rparr>"

text \<open>A stand-in for the product of two doubles: the exact product, which is the double
  product wherever it can be represented, as for one half times a small whole number.\<close>

definition times_exact :: "real \<Rightarrow> real \<Rightarrow> real" where
  "times_exact a b = a * b"


text \<open>The working directory holds a settings file \<open>params.yaml\<close> and the file \<open>y.txt\<close>.\<close>

definition env_cwd :: "unit env" where
  "env_cwd = \<lparr>
     isdir = (\<lambda>p. False),
     isfile = (\<lambda>p. p = ''params.yaml'' \<or> p = ''y.txt''),
     text_files = (\<lambda>p. if p = ''y.txt'' then Some [Data [Fin 1, Fin 2], Data [Fin 3, Fin 4]]
                         else None),
     params_load = (\<lambda>p.
       if p = ''params.yaml'' then Inr []
       else Inl (FileNotFoundError (not_found_msg p))),
     file_names = names0,
     fng = (\<lambda>name. None),
     get_x = (\<lambda>spacing params names n. Inl (OtherError ''no sampler''))\<rparr>"

text \<open>The path cannot be classified: \<open>path\<close> and \<open>path_y\<close> are not both given, and \<open>path\<close> is
  neither a directory nor a file.\<close>

definition unclassifiable :: "'m env \<Rightarrow> string \<Rightarrow> string option \<Rightarrow> bool" where
  "unclassifiable env p p_y \<longleftrightarrow> \<not> (p \<noteq> [] \<and> given p_y) \<and> \<not> isdir env p \<and> \<not> isfile env p"

section \<open>Properties of join\<close>





lemma foldl_minimum2_fold:
  "foldl minimum2 (Fin a) (map Fin as) = Fin (fold min as a)"
proof (induction as arbitrary: a)
  case Nil
  then show ?case by simp
next
  case (Cons b bs)
  have "minimum2 (Fin a) (Fin b) = Fin (min b a)"
    by (simp add: minimum2_def min_def)
  then show ?case
    using Cons.IH [of "min b a"] by simp
qed

lemma foldl_maximum2_fold:
  "foldl maximum2 (Fin a) (map Fin as) = Fin (fold max as a)"
proof (induction as arbitrary: a)
  case Nil
  then show ?case by simp
next
  case (Cons b bs)
  have "maximum2 (Fin a) (Fin b) = Fin (max b a)"
    by (simp add: maximum2_def max_def)
  then show ?case
    using Cons.IH [of "max b a"] by simp
qed

lemma column_range_finite:
  "column_range (map Fin (a # as)) = (Fin (Min (set (a # as))), Fin (Max (set (a # as))))"
  unfolding Min.set_eq_fold Max.set_eq_fold
  by (simp add: column_range_def foldl_minimum2_fold foldl_maximum2_fold)

lemma col_ranges_rows:
  "rws a \<noteq> [] \<Longrightarrow> col_ranges a = Inr (map (\<lambda>j. column_range (column a j)) [0..<ncols a])"
  by (simp add: col_ranges_def np_min0_def np_max0_def reduce_axis0_def column_range_def
      zip_map_map zip_same_conv_map Let_def)

lemma those_map_Some:
  "\<forall>s \<in> set ss. f s \<noteq> None \<Longrightarrow> those (map f ss) = Some (map (\<lambda>s. the (f s)) ss)"
  by (induction ss) auto

lemma vstack_same_cols:
  assumes "as \<noteq> []" and "\<forall>a \<in> set as. ncols a = c"
  shows "vstack as = Inr \<lparr>ncols = c, rws = concat (map rws as)\<rparr>"
  using assms by (cases as) (auto simp: vstack_def list_all_iff)

lemma join_nonempty:
  assumes "samples \<noteq> []"
  shows "join samples =
     (if \<not> list_all (\<lambda>s. n_x s = n_x (hd samples)) samples then Inl (ValueError join_msg)
      else if \<not> list_all (\<lambda>s. n_y s = n_y (hd samples)) samples then Inl (ValueError join_msg)
      else
     (case those (map x_data samples) of
        None \<Rightarrow> Inl TypeError
      | Some xs \<Rightarrow>
     (case vstack xs of
        Inl e \<Rightarrow> Inl e
      | Inr x \<Rightarrow>
     (case col_ranges x of
        Inl e \<Rightarrow> Inl e
      | Inr ranges \<Rightarrow>
     (case those (map y_data samples) of
        None \<Rightarrow> Inl TypeError
      | Some ys \<Rightarrow>
     (case vstack ys of
        Inl e \<Rightarrow> Inl e
      | Inr y \<Rightarrow>
     (case those (map n_samples samples) of
        None \<Rightarrow> Inl TypeError
      | Some ns \<Rightarrow>
          Inr (Sample\<lparr>n_x := n_x (hd samples), n_y := n_y (hd samples), x_data := Some x,
                      x_ranges := Some ranges, y_data := Some y,
                      x_names := x_names (hd samples), y_names := y_names (hd samples),
                      n_samples := Some (sum_list ns)\<rparr>))))))))"
proof -
  obtain s0 rest where "samples = s0 # rest"
    using assms by (cases samples) auto
  then show ?thesis
    unfolding join_def by (simp only: list.case list.sel)
qed





text \<open>
  Claim C6, as the code has it. For a non-empty list of compatible, loaded samples with
  at least one row of \<open>x\<close> among them, \<open>join\<close> returns a new sample: its \<open>x\<close> and \<open>y\<close> are the
  rows of the inputs one input after the other, in input order; \<open>n_samples\<close> is the sum of
  the inputs' \<open>n_samples\<close>; the names are those of the first input; \<open>x_ranges\<close> holds
  (min, max) of every column of the joined \<open>x\<close>; settings and path are those of a fresh
  sample.
\<close>

theorem join_concatenates:
  assumes ne: "samples \<noteq> []"
    and compat: "\<forall>s \<in> set samples. n_x s = n_x (hd samples) \<and> n_y s = n_y (hd samples)"
    and ld: "\<forall>s \<in> set samples. loaded s"
    and row: "\<exists>s \<in> set samples. rws (the (x_data s)) \<noteq> []"
  shows "\<exists>r x. join samples = Inr r \<and>
           x = \<lparr>ncols = the (n_x (hd samples)),
                rws = concat (map (\<lambda>s. rws (the (x_data s))) samples)\<rparr> \<and>
           x_data r = Some x \<and>
           y_data r = Some \<lparr>ncols = the (n_y (hd samples)),
                            rws = concat (map (\<lambda>s. rws (the (y_data s))) samples)\<rparr> \<and>
           n_samples r = Some (sum_list (map (\<lambda>s. the (n_samples s)) samples)) \<and>
           n_x r = n_x (hd samples) \<and> n_y r = n_y (hd samples) \<and>
           x_names r = x_names (hd samples) \<and> y_names r = y_names (hd samples) \<and>
           x_ranges r = Some (map (\<lambda>j. column_range (column x j)) [0..<ncols x]) \<and>
           settings r = None \<and> path r = None"
proof -
  let ?s0 = "hd samples"
  let ?xs = "map (\<lambda>s. the (x_data s)) samples"
  let ?ys = "map (\<lambda>s. the (y_data s)) samples"
  let ?x = "\<lparr>ncols = the (n_x ?s0), rws = concat (map (\<lambda>s. rws (the (x_data s))) samples)\<rparr>"
  let ?y = "\<lparr>ncols = the (n_y ?s0), rws = concat (map (\<lambda>s. rws (the (y_data s))) samples)\<rparr>"
  let ?ranges = "map (\<lambda>j. column_range (column ?x j)) [0..<ncols ?x]"
  have tx: "those (map x_data samples) = Some ?xs"
    using ld by (intro those_map_Some) (simp add: loaded_def)
  have ty: "those (map y_data samples) = Some ?ys"
    using ld by (intro those_map_Some) (simp add: loaded_def)
  have tn: "those (map n_samples samples) = Some (map (\<lambda>s. the (n_samples s)) samples)"
    using ld by (intro those_map_Some) (simp add: loaded_def)
  have cx: "\<forall>a \<in> set ?xs. ncols a = the (n_x ?s0)"
  proof
    fix a assume "a \<in> set ?xs"
    then obtain s where s: "s \<in> set samples" and a: "a = the (x_data s)" by auto
    from s ld have "x_data s \<noteq> None" "n_x s = map_option shape1 (x_data s)"
      by (simp_all add: loaded_def)
    then have "n_x s = Some (ncols a)" by (auto simp: a shape1_def)
    moreover from s compat have "n_x s = n_x ?s0" by simp
    ultimately show "ncols a = the (n_x ?s0)" by simp
  qed
  have cy: "\<forall>a \<in> set ?ys. ncols a = the (n_y ?s0)"
  proof
    fix a assume "a \<in> set ?ys"
    then obtain s where s: "s \<in> set samples" and a: "a = the (y_data s)" by auto
    from s ld have "y_data s \<noteq> None" "n_y s = map_option shape1 (y_data s)"
      by (simp_all add: loaded_def)
    then have "n_y s = Some (ncols a)" by (auto simp: a shape1_def)
    moreover from s compat have "n_y s = n_y ?s0" by simp
    ultimately show "ncols a = the (n_y ?s0)" by simp
  qed
  have "?xs \<noteq> []" "?ys \<noteq> []" using ne by simp_all
  then have vx: "vstack ?xs = Inr ?x" and vy: "vstack ?ys = Inr ?y"
    using vstack_same_cols [OF _ cx] vstack_same_cols [OF _ cy] by (simp_all add: comp_def)
  have "rws ?x \<noteq> []"
    using row by auto
  then have cr: "col_ranges ?x = Inr ?ranges"
    by (rule col_ranges_rows)
  have all: "list_all (\<lambda>s. n_x s = n_x ?s0) samples" "list_all (\<lambda>s. n_y s = n_y ?s0) samples"
    using compat by (simp_all add: list_all_iff)
  have "join samples =
          Inr (Sample\<lparr>n_x := n_x ?s0, n_y := n_y ?s0, x_data := Some ?x,
                      x_ranges := Some ?ranges, y_data := Some ?y,
                      x_names := x_names ?s0, y_names := y_names ?s0,
                      n_samples := Some (sum_list (map (\<lambda>s. the (n_samples s)) samples))\<rparr>)"
    using all by (simp add: join_nonempty [OF ne] tx ty tn vx vy cr)
  then show ?thesis
    by (simp add: Sample_def)
qed

theorem join_concatenates_witness:
  "\<exists>r. join [sample_a, sample_b] = Inr r \<and>
     x_data r = Some \<lparr>ncols = 2, rws = [[Fin 1, Fin 5], [Fin 3, Fin 4], [Fin 0, Fin 9]]\<rparr> \<and>
     y_data r = Some \<lparr>ncols = 1, rws = [[Fin 10], [Fin 20], [Fin 30]]\<rparr> \<and>
     n_samples r = Some 3 \<and> x_names r = Some [''a'', ''b''] \<and> y_names r = Some [''c''] \<and>
     x_ranges r = Some [(Fin 0, Fin 3), (Fin 4, Fin 9)]"
proof -
  have "[sample_a, sample_b] \<noteq> []" by simp
  moreover have "\<forall>s \<in> set [sample_a, sample_b].
      n_x s = n_x (hd [sample_a, sample_b]) \<and> n_y s = n_y (hd [sample_a, sample_b])"
    by (simp add: sample_a_def sample_b_def Sample_def)
  moreover have "\<forall>s \<in> set [sample_a, sample_b]. loaded s"
    by (simp add: loaded_def sample_a_def sample_b_def Sample_def shape1_def)
  moreover have "\<exists>s \<in> set [sample_a, sample_b]. rws (the (x_data s)) \<noteq> []"
    by (simp add: sample_a_def Sample_def)
  ultimately show ?thesis
    using join_concatenates [of "[sample_a, sample_b]"]
    by (auto simp: sample_a_def sample_b_def Sample_def column_range_def column_def
        minimum2_def maximum2_def upt_rec numeral_nat)
qed

text \<open>The claim as the specification states it, for every non-empty list of compatible
  samples, fails when the inputs hold no row: the sample \<open>sample_empty\<close> is loaded and
  compatible with itself, and \<open>join\<close> raises \<open>ValueError\<close> where the claim has it return.\<close>

theorem join_without_rows_counterexample:
  "loaded sample_empty \<and> join [sample_empty] = Inl (ValueError zero_size_msg)"
  by code_simp

section \<open>Properties of load\<close>

lemma not_found_msg_neq_path_msg: "not_found_msg p \<noteq> path_msg"
proof
  assume "not_found_msg p = path_msg"
  then have "last (not_found_msg p) = last path_msg" by simp
  then show False by (simp add: not_found_msg_def path_msg_def)
qed

lemma index_list_error: "index_list n is = Inl e \<Longrightarrow> e = IndexError"
  by (induction "is") (auto split: if_splits sum.splits)

lemma selected_error: "selected cs n = Inl e \<Longrightarrow> e = IndexError"
  by (cases cs) (auto simp: selected_def dest: index_list_error)

lemma take_columns_error: "take_columns a cs = Inl e \<Longrightarrow> e = IndexError"
  by (auto simp: take_columns_def split: sum.splits dest: selected_error)

lemma take_names_error: "take_names ns cs = Inl e \<Longrightarrow> e = IndexError"
  by (auto simp: take_names_def split: sum.splits dest: selected_error)

lemma genfromtxt_error:
  "genfromtxt files p = Inl e \<Longrightarrow>
     e = FileNotFoundError (not_found_msg p) \<or> e = ValueError columns_msg"
  by (auto simp: genfromtxt_def genfromtxt_lines_def split: option.splits list.splits if_splits)

lemma try_to_load_names_array_error:
  "try_to_load_names_array files p n = Inl e \<Longrightarrow> e = FileNotFoundError (not_found_msg p)"
  by (auto simp: try_to_load_names_array_def Let_def split: option.splits if_splits)

lemma load_array_error:
  assumes "load_array files p cs = Inl e"
  shows "e = IndexError \<or> e = FileNotFoundError (not_found_msg p) \<or> e = ValueError columns_msg"
proof (cases "genfromtxt files p")
  case (Inl e')
  then show ?thesis
    using assms genfromtxt_error [OF Inl] by (simp add: load_array_def)
next
  case (Inr arr)
  show ?thesis
  proof (cases arr)
    case (A0 v)
    then show ?thesis using assms Inr by (simp add: load_array_def)
  next
    case (A1 vs)
    then show ?thesis
      using assms Inr
      by (auto simp: load_array_def Let_def split: sum.splits option.splits
          dest: try_to_load_names_array_error take_columns_error take_names_error)
  next
    case (A2 a)
    then show ?thesis
      using assms Inr
      by (auto simp: load_array_def Let_def split: sum.splits option.splits
          dest: try_to_load_names_array_error take_columns_error take_names_error)
  qed
qed

lemma load_array_not_path_error: "load_array files p cs \<noteq> Inl (FileNotFoundError path_msg)"
  using load_array_error [of files p cs "FileNotFoundError path_msg"]
    not_found_msg_neq_path_msg [of p] by auto

lemma col_ranges_not_path_error: "col_ranges a \<noteq> Inl (FileNotFoundError path_msg)"
  by (auto simp: col_ranges_def np_min0_def np_max0_def reduce_axis0_def split: sum.splits)

lemma remove_non_finite_rows_not_path_error:
  "remove_non_finite_rows b x y \<noteq> Inl (FileNotFoundError path_msg)"
  by (auto simp: remove_non_finite_rows_def mask_rows_def split: sum.splits)

lemma load_settings_cases:
  "load_settings env self p =
     (case params_load env (path_join p (fn_params (file_names env))) of
        Inr st \<Rightarrow> Inr (self\<lparr>settings := Some st\<rparr>, [])
      | Inl e \<Rightarrow> if e = NotADirectoryError then Inr (self, [warn_settings]) else Inl e)"
  by (simp add: load_settings_def Let_def split: sum.splits exn.splits)


lemma assign_paths_cases:
  "assign_paths env self p p_y columns_x columns_y = Inl e
     \<longleftrightarrow> unclassifiable env p p_y \<and> e = FileNotFoundError path_msg"
  by (auto simp: assign_paths_def unclassifiable_def)

lemma load_after_settings:
  assumes "load_settings env self p = Inr (self1, w)"
  shows "load env self p p_y columns_x columns_y remove_non_finite = Inl (FileNotFoundError path_msg)
         \<longleftrightarrow> unclassifiable env p p_y"
proof (cases "assign_paths env self1 p p_y columns_x columns_y")
  case (Inl e)
  then show ?thesis
    using assms assign_paths_cases [of env self1 p p_y columns_x columns_y e]
    by (simp add: load_def)
next
  case (Inr t)
  then have "\<not> unclassifiable env p p_y"
    using assign_paths_cases [of env self1 p p_y columns_x columns_y "FileNotFoundError path_msg"]
    by simp
  moreover have "load env self p p_y columns_x columns_y remove_non_finite
                   \<noteq> Inl (FileNotFoundError path_msg)"
    using Inr assms load_array_not_path_error col_ranges_not_path_error
      remove_non_finite_rows_not_path_error
    by (auto simp: load_def split: sum.splits prod.splits)
  ultimately show ?thesis by simp
qed


text \<open>
  Claim C5, as the code has it. \<open>load\<close> raises its path error (the \<open>FileNotFoundError\<close> of
  the last branch) exactly when the call gets past the settings stage (the settings
  loader returns, or raises the \<open>NotADirectoryError\<close> that \<open>load\<close> catches) and the path
  cannot be classified: \<open>path\<close> and \<open>path_y\<close> are not both given (an empty string counts as
  not given), \<open>path\<close> is not a directory and \<open>path\<close> is not a file. Any other exception of
  the settings loader ends the call before the path is classified, so the only other
  way for that error to leave \<open>load\<close> is the settings loader raising it itself. In every
  case that can be classified, no later stage raises it.
\<close>

theorem load_path_error_exactly:
  "load env self p p_y columns_x columns_y remove_non_finite = Inl (FileNotFoundError path_msg)
   \<longleftrightarrow>
   (case params_load env (path_join p (fn_params (file_names env))) of
      Inr st \<Rightarrow> unclassifiable env p p_y
    | Inl e \<Rightarrow> e = FileNotFoundError path_msg \<or>
               (e = NotADirectoryError \<and> unclassifiable env p p_y))"
proof (cases "params_load env (path_join p (fn_params (file_names env)))")
  case (Inr st)
  then have "load_settings env self p = Inr (self\<lparr>settings := Some st\<rparr>, [])"
    by (simp add: load_settings_cases)
  then show ?thesis
    using Inr load_after_settings by simp
next
  case (Inl e)
  show ?thesis
  proof (cases "e = NotADirectoryError")
    case True
    then have "load_settings env self p = Inr (self, [warn_settings])"
      using Inl by (simp add: load_settings_cases)
    then show ?thesis
      using Inl True load_after_settings by simp
  next
    case False
    then have "load_settings env self p = Inl e"
      using Inl by (simp add: load_settings_cases)
    then have "load env self p p_y columns_x columns_y remove_non_finite = Inl e"
      by (simp add: load_def)
    then show ?thesis
      using Inl False by auto
  qed
qed

theorem load_path_error_exactly_witness:
  "load env_pair Sample ''/dev/null'' None (Slice None None) (Slice None None) False
     = Inl (FileNotFoundError path_msg) \<and>
   load env_pair Sample ''x.txt'' (Some ''y.txt'') (Slice None None) (Slice None None) False
     \<noteq> Inl (FileNotFoundError path_msg) \<and>
   load env_single Sample ''xy.txt'' None (Slice None None) (Slice None None) False
     \<noteq> Inl (FileNotFoundError path_msg) \<and>
   load env_pair Sample ''nowhere'' None (Slice None None) (Slice None None) False
     \<noteq> Inl (FileNotFoundError path_msg)"
  using load_path_error_exactly [of env_pair Sample "''/dev/null''" None "Slice None None" "Slice None None" False]
    load_path_error_exactly [of env_pair Sample "''x.txt''" "Some ''y.txt''" "Slice None None" "Slice None None" False]
    load_path_error_exactly [of env_single Sample "''xy.txt''" None "Slice None None" "Slice None None" False]
    load_path_error_exactly [of env_pair Sample "''nowhere''" None "Slice None None" "Slice None None" False]
    not_found_msg_neq_path_msg
  by (simp add: env_pair_def env_single_def names0_def path_join_def startswith_def given_def
      unclassifiable_def)


text \<open>The claim as the specification states it fails in two ways. With an empty \<open>path\<close>
  the path error is raised although \<open>path_y\<close> is given. And for a path that does not exist,
  which cannot be classified, the call ends in the settings stage with the loader's own
  error before the path is looked at.\<close>

theorem load_path_error_counterexample:
  "given (Some ''y.txt'') \<and>
   load env_cwd Sample '''' (Some ''y.txt'') (Slice None None) (Slice None None) False
     = Inl (FileNotFoundError path_msg) \<and>
   unclassifiable env_pair ''nowhere'' None \<and>
   load env_pair Sample ''nowhere'' None (Slice None None) (Slice None None) False
     = Inl (FileNotFoundError ''nowhere/params.yaml not found.'')"
  by code_simp

text \<open>What "Remove non finite" keeps: the rows of \<open>y\<close> with at least one finite value, and
  the rows of \<open>x\<close> beside them.\<close>

lemma mask_by_own_rows: "map fst (filter snd (zip qs (map P qs))) = filter P qs"
  by (induction qs) auto

lemma mask_by_other_rows:
  "length rs = length qs \<Longrightarrow>
     map fst (filter snd (zip rs (map P qs))) = map fst (filter (\<lambda>(r, q). P q) (zip rs qs))"
  by (induction rs qs rule: list_induct2) auto

lemma remove_non_finite_rows_keeps:
  assumes "shape0 x = shape0 y"
  shows "remove_non_finite_rows True x y =
           Inr (x\<lparr>rws := map fst (filter (\<lambda>(r, q). list_ex isfinite q) (zip (rws x) (rws y)))\<rparr>,
                y\<lparr>rws := filter (list_ex isfinite) (rws y)\<rparr>)"
  using assms
  by (simp add: remove_non_finite_rows_def mask_rows_def only_finites_def shape0_def
      mask_by_own_rows mask_by_other_rows)

text \<open>
  Claim C2, at a failing input. The pair \<open>x.txt\<close>, \<open>y.txt\<close> of \<open>env_pair\<close> is loaded with
  \<open>remove_non_finite\<close>. The first row of \<open>y\<close> holds a NaN beside a finite value and is
  kept, as is the row of \<open>x\<close> beside it; only the row without any finite value is dropped,
  and \<open>n_samples\<close> is 2 where the claim gives 1.
\<close>

theorem load_keeps_row_with_nan:
  "load env_pair Sample ''x.txt'' (Some ''y.txt'') (Slice None None) (Slice None None) True =
     Inr (Sample\<lparr>
            x_data := Some \<lparr>ncols = 2, rws = [[Fin 1, Fin 2], [Fin 3, Fin 4]]\<rparr>,
            y_data := Some \<lparr>ncols = 2, rws = [[Fin 5, NaN], [Fin 6, Fin 7]]\<rparr>,
            n_samples := Some 2, n_x := Some 2, n_y := Some 2,
            x_ranges := Some [(Fin 1, Fin 5), (Fin 2, Fin 6)]\<rparr>,
          [warn_settings])"
  by code_simp

text \<open>For comparison: a combined file without a header whose table has at least two rows
  and \<open>c \<ge> 2\<close> columns is split as the documentation says, all but the last column into
  \<open>x\<close>, the last one into \<open>y\<close>, with the names unknown.\<close>

lemma all_but_last: "length q = c \<Longrightarrow> map (\<lambda>j. q ! j) [0..<c - 1] = butlast q"
  by (rule nth_equalityI) (auto simp: nth_butlast)

lemma only_last: "length q = c \<Longrightarrow> 0 < c \<Longrightarrow> map (\<lambda>j. q ! j) [c - 1..<c] = [last q]"
  by (cases q rule: rev_cases) (auto simp: nth_append)

lemma all_but_last_rows:
  assumes "\<forall>q \<in> set qs. length q = c"
  shows "map (\<lambda>q. map (\<lambda>j. q ! j) [0..<c - 1]) qs = map butlast qs"
proof -
  have "\<forall>q \<in> set qs. map (\<lambda>j. q ! j) [0..<c - 1] = butlast q"
    using assms all_but_last by blast
  then show ?thesis by (simp only: map_eq_conv)
qed

lemma only_last_rows:
  assumes "\<forall>q \<in> set qs. length q = c" and "0 < c"
  shows "map (\<lambda>q. map (\<lambda>j. q ! j) [c - 1..<c]) qs = map (\<lambda>q. [last q]) qs"
proof -
  have "\<forall>q \<in> set qs. map (\<lambda>j. q ! j) [c - 1..<c] = [last q]"
    using assms only_last by blast
  then show ?thesis by (simp only: map_eq_conv)
qed

lemma genfromtxt_lines_two_rows:
  assumes "data_rows ls = r # rs" and "rs \<noteq> []" and "\<forall>q \<in> set rs. length q = length r"
    and "2 \<le> length r"
  shows "genfromtxt_lines ls = Inr (A2 \<lparr>ncols = length r, rws = r # rs\<rparr>)"
  using assms by (auto simp: genfromtxt_lines_def list_all_iff)

lemma load_array_two_rows:
  assumes files: "files p = Some ls"
    and rows: "data_rows ls = r # rs" "rs \<noteq> []" "\<forall>q \<in> set rs. length q = length r"
      "2 \<le> length r"
    and header: "last_comment ls None = None"
  shows "load_array files p (Slice None (Some (- 1)))
           = Inr (\<lparr>ncols = length r - 1, rws = map butlast (r # rs)\<rparr>, None)"
    and "load_array files p (Slice (Some (- 1)) None)
           = Inr (\<lparr>ncols = 1, rws = map (\<lambda>q. [last q]) (r # rs)\<rparr>, None)"
proof -
  have g: "genfromtxt files p = Inr (A2 \<lparr>ncols = length r, rws = r # rs\<rparr>)"
    using files genfromtxt_lines_two_rows [OF rows] by (simp add: genfromtxt_def)
  have n: "try_to_load_names_array files p (length r) = Inr None"
    using files header by (simp add: try_to_load_names_array_def)
  have len: "\<forall>q \<in> set (r # rs). length q = length r"
    using rows by simp
  have pos: "0 < length r" using rows(4) by (cases r) simp_all
  have c1: "take_columns \<lparr>ncols = length r, rws = r # rs\<rparr> (Slice None (Some (- 1)))
              = Inr \<lparr>ncols = length r - 1, rws = map butlast (r # rs)\<rparr>"
    using all_but_last_rows [OF len] rows(4)
    by (simp add: take_columns_def selected_def slice_bound_def nat_diff_distrib'
        del: list.map)
  have c2: "take_columns \<lparr>ncols = length r, rws = r # rs\<rparr> (Slice (Some (- 1)) None)
              = Inr \<lparr>ncols = 1, rws = map (\<lambda>q. [last q]) (r # rs)\<rparr>"
    using only_last_rows [OF len pos] rows(4)
    by (simp add: take_columns_def selected_def slice_bound_def nat_diff_distrib'
        del: list.map upt_Suc)
  show "load_array files p (Slice None (Some (- 1)))
           = Inr (\<lparr>ncols = length r - 1, rws = map butlast (r # rs)\<rparr>, None)"
    by (simp add: load_array_def g n c1 shape1_def del: list.map)
  show "load_array files p (Slice (Some (- 1)) None)
           = Inr (\<lparr>ncols = 1, rws = map (\<lambda>q. [last q]) (r # rs)\<rparr>, None)"
    by (simp add: load_array_def g n c2 shape1_def del: list.map)
qed

lemma load_settings_passes:
  assumes "\<forall>e. params_load env (path_join p (fn_params (file_names env))) = Inl e
             \<longrightarrow> e = NotADirectoryError"
  shows "\<exists>self1 w. load_settings env self p = Inr (self1, w) \<and>
           (\<forall>v. self1\<lparr>settings := v\<rparr> = self\<lparr>settings := v\<rparr>)"
  using assms
  by (cases "params_load env (path_join p (fn_params (file_names env)))")
     (simp_all add: load_settings_cases)

lemma load_combined_file:
  assumes single: "\<not> given p_y" "\<not> isdir env p" "isfile env p"
    and settings_stage: "\<forall>e. params_load env (path_join p (fn_params (file_names env))) = Inl e
                          \<longrightarrow> e = NotADirectoryError"
    and files: "text_files env p = Some ls"
    and rows: "data_rows ls = r # rs" "rs \<noteq> []" "\<forall>q \<in> set rs. length q = length r"
      "2 \<le> length r"
    and header: "last_comment ls None = None"
  shows "\<exists>s w. load env self p p_y columns_x columns_y False = Inr (s, w) \<and>
           x_data s = Some \<lparr>ncols = length r - 1, rws = map butlast (r # rs)\<rparr> \<and>
           y_data s = Some \<lparr>ncols = 1, rws = map (\<lambda>q. [last q]) (r # rs)\<rparr> \<and>
           x_names s = None \<and> y_names s = None \<and>
           n_x s = Some (length r - 1) \<and> n_y s = Some 1 \<and>
           n_samples s = Some (length (r # rs))"
proof -
  obtain self1 w where ls: "load_settings env self p = Inr (self1, w)"
    using load_settings_passes [OF settings_stage] by blast
  have ap: "assign_paths env self1 p p_y columns_x columns_y
              = Inr (self1, p, p, Slice None (Some (- 1)), Slice (Some (- 1)) None)"
    using single by (simp add: assign_paths_def)
  let ?x = "\<lparr>ncols = length r - 1, rws = map butlast (r # rs)\<rparr>"
  have "rws ?x \<noteq> []" by simp
  then obtain ranges where cr: "col_ranges ?x = Inr ranges"
    using col_ranges_rows by blast
  show ?thesis
    unfolding load_def ls using cr
    by (simp add: ap load_array_two_rows [of "text_files env" p, OF files rows header]
        remove_non_finite_rows_def shape0_def shape1_def del: list.map)
qed

text \<open>
  Claim C9, at a failing input. The combined file \<open>xy.txt\<close> of \<open>env_single\<close> holds one row
  of three numbers. \<open>np.genfromtxt\<close> returns it one-dimensional, \<open>_load_array\<close> makes a
  single column of it, and the sample has three rows, no x-column and one y-column, where
  the claim gives one row with \<open>n_x = 2\<close>.
\<close>

theorem load_single_row_file:
  "load env_single Sample ''xy.txt'' None (Slice None None) (Slice None None) False =
     Inr (Sample\<lparr>
            x_data := Some \<lparr>ncols = 0, rws = [[], [], []]\<rparr>,
            y_data := Some \<lparr>ncols = 1, rws = [[Fin 1], [Fin 2], [Fin 3]]\<rparr>,
            n_samples := Some 3, n_x := Some 0, n_y := Some 1,
            x_ranges := Some []\<rparr>,
          [warn_settings])"
  by code_simp


subsection \<open>The settings stage\<close>

lemma assign_paths_settings:
  "assign_paths env (self\<lparr>settings := v\<rparr>) p p_y cx cy =
     map_sum id (\<lambda>(s, t). (s\<lparr>settings := v\<rparr>, t)) (assign_paths env self p p_y cx cy)"
  by (simp add: assign_paths_def)

lemma assign_paths_params_load:
  "assign_paths (env\<lparr>params_load := f\<rparr>) self p p_y cx cy = assign_paths env self p p_y cx cy"
  by (simp add: assign_paths_def)

lemma assign_paths_keeps_settings:
  "assign_paths env self p p_y cx cy = Inr (a, t) \<Longrightarrow> settings a = settings self"
  by (auto simp: assign_paths_def split: if_splits)


text \<open>
  Claim C7, as the code has it. When the settings loader raises \<open>NotADirectoryError\<close> (the
  path names a file, as for a file pair or a single combined file), \<open>load\<close> does not fail
  on that account: it prints the warning, leaves the settings as they were (unset on a
  fresh sample) and loads the data exactly as it does when the settings can be loaded.
  Any other exception of the settings loader leaves \<open>load\<close> as it is.
\<close>

theorem load_settings_failure:
  "(params_load env (path_join p (fn_params (file_names env))) = Inl NotADirectoryError \<longrightarrow>
      load env self p p_y columns_x columns_y remove_non_finite =
        (case load (env\<lparr>params_load := \<lambda>q. Inr st\<rparr>) self p p_y columns_x columns_y remove_non_finite of
           Inl e \<Rightarrow> Inl e
         | Inr (s, w) \<Rightarrow> Inr (s\<lparr>settings := settings self\<rparr>, [warn_settings]))) \<and>
   (\<forall>e. params_load env (path_join p (fn_params (file_names env))) = Inl e \<and> e \<noteq> NotADirectoryError \<longrightarrow>
      load env self p p_y columns_x columns_y remove_non_finite = Inl e)"
proof (intro conjI impI allI)
  assume a: "params_load env (path_join p (fn_params (file_names env))) = Inl NotADirectoryError"
  have 1: "load_settings env self p = Inr (self, [warn_settings])"
    using a by (simp add: load_settings_cases)
  have 2: "load_settings (env\<lparr>params_load := \<lambda>q. Inr st\<rparr>) self p = Inr (self\<lparr>settings := Some st\<rparr>, [])"
    by (simp add: load_settings_cases)
  show "load env self p p_y columns_x columns_y remove_non_finite =
        (case load (env\<lparr>params_load := \<lambda>q. Inr st\<rparr>) self p p_y columns_x columns_y remove_non_finite of
           Inl e \<Rightarrow> Inl e
         | Inr (s, w) \<Rightarrow> Inr (s\<lparr>settings := settings self\<rparr>, [warn_settings]))"
    unfolding load_def 1 2
    by (auto simp: assign_paths_settings assign_paths_params_load
        split: sum.splits prod.splits dest!: assign_paths_keeps_settings)
next
  fix e
  assume "params_load env (path_join p (fn_params (file_names env))) = Inl e \<and> e \<noteq> NotADirectoryError"
  then have "load_settings env self p = Inl e"
    by (simp add: load_settings_cases)
  then show "load env self p p_y columns_x columns_y remove_non_finite = Inl e"
    by (simp add: load_def)
qed

theorem load_settings_failure_witness:
  "params_load env_single (path_join ''xy.txt'' (fn_params (file_names env_single)))
     = Inl NotADirectoryError \<and>
   load env_single Sample ''xy.txt'' None (Slice None None) (Slice None None) False =
     (case load (env_single\<lparr>params_load := \<lambda>q. Inr []\<rparr>) Sample ''xy.txt'' None
             (Slice None None) (Slice None None) False of
        Inl e \<Rightarrow> Inl e
      | Inr (s, w) \<Rightarrow> Inr (s\<lparr>settings := settings Sample\<rparr>, [warn_settings])) \<and>
   params_load env_dir (path_join ''out'' (fn_params (file_names env_dir)))
     = Inl (FileNotFoundError (not_found_msg ''out/params.yaml'')) \<and>
   load env_dir Sample ''out'' None (Slice None None) (Slice None None) False
     = Inl (FileNotFoundError (not_found_msg ''out/params.yaml''))"
  using load_settings_failure [of env_single "''xy.txt''" Sample None "Slice None None"
      "Slice None None" False "[]"]
    load_settings_failure [of env_dir "''out''" Sample None "Slice None None"
      "Slice None None" False]
  by (simp add: env_single_def env_dir_def names0_def path_join_def startswith_def)

text \<open>The claim as the specification states it fails in a directory that holds the two
  sample files and no settings file: the loader's \<open>FileNotFoundError\<close> is not caught.\<close>

theorem load_missing_settings_counterexample:
  "isdir env_dir ''out'' \<and>
   params_load env_dir ''out/params.yaml'' = Inl (FileNotFoundError ''out/params.yaml not found.'') \<and>
   load env_dir Sample ''out'' None (Slice None None) (Slice None None) False
     = Inl (FileNotFoundError ''out/params.yaml not found.'') \<and>
   load (env_dir\<lparr>params_load := \<lambda>q. Inr []\<rparr>) Sample ''out'' None (Slice None None)
       (Slice None None) False
     = Inr (Sample\<lparr>
              x_data := Some \<lparr>ncols = 1, rws = [[Fin 1], [Fin 2], [Fin 3]]\<rparr>,
              y_data := Some \<lparr>ncols = 1, rws = [[Fin 10], [Fin 20], [Fin 30]]\<rparr>,
              x_names := Some [''a''], y_names := Some [''c''],
              n_samples := Some 3, n_x := Some 1, n_y := Some 1,
              settings := Some [], path := Some ''out'',
              x_ranges := Some [(Fin 1, Fin 3)]\<rparr>, [])"
  by code_simp

section \<open>Properties of train\_test\_split\<close>

lemma split_of_permutation:
  assumes "distinct P" and "length P = n" and "m \<le> n"
  shows "distinct (take m (drop (n - m) P) @ take (n - m) P)"
    and "set (take m (drop (n - m) P) @ take (n - m) P) = set P"
    and "length (take m (drop (n - m) P)) = m"
    and "length (take (n - m) P) = n - m"
proof -
  have d: "take m (drop (n - m) P) = drop (n - m) P"
    using assms by simp
  have "distinct (take (n - m) P @ drop (n - m) P)"
    using assms(1) by simp
  then show "distinct (take m (drop (n - m) P) @ take (n - m) P)"
    unfolding d by (auto simp del: append_take_drop_id)
  have "set (take (n - m) P @ drop (n - m) P) = set P"
    by simp
  then show "set (take m (drop (n - m) P) @ take (n - m) P) = set P"
    unfolding d by (auto simp del: append_take_drop_id)
  show "length (take m (drop (n - m) P)) = m" "length (take (n - m) P) = n - m"
    using assms by simp_all
qed


text \<open>
  Claim C8, as the code has it. Let the sample hold \<open>n\<close> rows of \<open>x\<close> and of \<open>y\<close>, with
  \<open>n_samples = n\<close>; let the fraction lie strictly between 0 and 1 and be such that the train
  set, of \<open>floor(frac_train * n)\<close> rows, has at least one row and fewer than \<open>n\<close>; let the
  seed lie between 0 and \<open>2^32 - 1\<close>; and let the generator's permutation for this seed be
  a permutation of the row indices. Then \<open>train_test_split\<close> returns, and there are two
  index lists, together a duplicate-free enumeration of all row indices, such that
  \<open>x_train\<close> and \<open>y_train\<close> are the rows of \<open>x\<close> and of \<open>y\<close> at the first list, \<open>x_test\<close> and
  \<open>y_test\<close> the rows at the second: rows stay paired, no row is in both parts, and the two
  parts have \<open>n_samples\<close> rows together. The result is determined by the seed: it depends
  on the library only through the permutation drawn for this seed and the product
  \<open>frac_train * n\<close>.
\<close>

theorem train_test_split_partition:
  assumes perm: "distinct (permutation seed (shape0 x))"
      "set (permutation seed (shape0 x)) = {0..<shape0 x}"
    and data: "x_data self = Some x" "y_data self = Some y" "shape0 y = shape0 x"
      "n_samples self = Some (shape0 x)"
    and frac: "0 < frac_train" "frac_train < 1"
    and sizes: "0 < \<lfloor>fmul frac_train (real (shape0 x))\<rfloor>"
      "\<lfloor>fmul frac_train (real (shape0 x))\<rfloor> < int (shape0 x)"
    and seed: "0 \<le> seed" "seed < 2 ^ 32"
  shows "\<exists>s train test.
           train_test_split permutation fmul self frac_train seed = Inr s \<and>
           distinct (train @ test) \<and> set (train @ test) = {0..<shape0 x} \<and>
           length train = nat \<lfloor>fmul frac_train (real (shape0 x))\<rfloor> \<and>
           x_train s = Some (rows_at x train) \<and> y_train s = Some (rows_at y train) \<and>
           x_test s = Some (rows_at x test) \<and> y_test s = Some (rows_at y test) \<and>
           Some (shape0 (rows_at x train) + shape0 (rows_at x test)) = n_samples s \<and>
           x_data s = Some x \<and> y_data s = Some y \<and>
           (\<forall>permutation' fmul'.
              permutation' seed (shape0 x) = permutation seed (shape0 x) \<and>
              fmul' frac_train (real (shape0 x)) = fmul frac_train (real (shape0 x)) \<longrightarrow>
              train_test_split permutation' fmul' self frac_train seed = Inr s)"
proof -
  let ?n = "shape0 x"
  let ?P = "permutation seed ?n"
  let ?m = "nat \<lfloor>fmul frac_train (real ?n)\<rfloor>"
  let ?train = "take ?m (drop (?n - ?m) ?P)"
  let ?test = "take (?n - ?m) ?P"
  let ?s = "self\<lparr>x_train := Some (rows_at x ?train), x_test := Some (rows_at x ?test),
                 y_train := Some (rows_at y ?train), y_test := Some (rows_at y ?test)\<rparr>"
  have len: "length ?P = ?n"
    using perm distinct_card [of ?P] by simp
  have m_le: "?m \<le> ?n"
    using sizes by linarith
  define t where "t = \<lfloor>fmul frac_train (real ?n)\<rfloor>"
  have t: "t \<noteq> 0" "\<not> t < 0" "\<not> int ?n \<le> t" "\<not> int ?n - t \<le> 0" "\<not> int ?n \<le> int ?n - t"
    "nat t = ?m" "nat (int ?n - t) = ?n - ?m"
    using sizes unfolding t_def by linarith+
  have idx: "split_indices p q ?n frac_train seed = Inr (?train, ?test)"
    if "p seed ?n = ?P" and "q frac_train (real ?n) = fmul frac_train (real ?n)" for p q
  proof -
    have "\<lfloor>q frac_train (real ?n)\<rfloor> = t"
      using that(2) by (simp add: t_def)
    then show ?thesis
      using frac seed t that(1)
      by (simp add: split_indices_def Let_def del: of_nat_diff)
  qed
  have res: "train_test_split p q self frac_train seed = Inr ?s"
    if "p seed ?n = ?P" and "q frac_train (real ?n) = fmul frac_train (real ?n)" for p q
    using data idx [of p q] that by (simp add: train_test_split_def skl_train_test_split_def)
  have sum_rows: "shape0 (rows_at x ?train) + shape0 (rows_at x ?test) = ?n"
    using split_of_permutation(3,4) [OF perm(1) len m_le] m_le
    by (simp add: rows_at_def shape0_def del: length_take length_drop)
  have part: "distinct (?train @ ?test)" "set (?train @ ?test) = {0..<?n}"
    using split_of_permutation(1,2) [OF perm(1) len m_le] perm(2) by simp_all
  have lt: "length ?train = ?m"
    using split_of_permutation(3) [OF perm(1) len m_le] .
  have r0: "train_test_split permutation fmul self frac_train seed = Inr ?s"
    by (rule res) simp_all
  have fields: "x_train ?s = Some (rows_at x ?train)" "y_train ?s = Some (rows_at y ?train)"
    "x_test ?s = Some (rows_at x ?test)" "y_test ?s = Some (rows_at y ?test)"
    "x_data ?s = Some x" "y_data ?s = Some y" "n_samples ?s = Some ?n"
    using data by simp_all
  have det: "\<forall>permutation' fmul'.
              permutation' seed ?n = ?P \<and>
              fmul' frac_train (real ?n) = fmul frac_train (real ?n) \<longrightarrow>
              train_test_split permutation' fmul' self frac_train seed = Inr ?s"
    using res by blast
  show ?thesis
    apply (rule exI [of _ ?s])
    apply (rule exI [of _ ?train])
    apply (rule exI [of _ ?test])
    apply (intro conjI)
    apply (rule r0)
    apply (rule part(1))
    apply (rule part(2))
    apply (rule lt)
    apply (rule fields(1))
    apply (rule fields(2))
    apply (rule fields(3))
    apply (rule fields(4))
    apply (simp only: sum_rows fields(7))
    apply (rule fields(5))
    apply (rule fields(6))
    apply (rule det)
    done
qed

theorem train_test_split_partition_witness:
  "\<exists>s. train_test_split backwards times_exact sample_a (1 / 2) 7 = Inr s \<and>
     x_train s = Some \<lparr>ncols = 2, rws = [[Fin 1, Fin 5]]\<rparr> \<and>
     y_train s = Some \<lparr>ncols = 1, rws = [[Fin 10]]\<rparr> \<and>
     x_test s = Some \<lparr>ncols = 2, rws = [[Fin 3, Fin 4]]\<rparr> \<and>
     y_test s = Some \<lparr>ncols = 1, rws = [[Fin 20]]\<rparr>"
proof -
  let ?x = "\<lparr>ncols = 2, rws = [[Fin 1, Fin 5], [Fin 3, Fin 4]]\<rparr> :: npfloat array2"
  let ?y = "\<lparr>ncols = 1, rws = [[Fin 10], [Fin 20]]\<rparr> :: npfloat array2"
  have b: "backwards 7 2 = [1, 0]"
    by (simp add: backwards_def upt_rec numeral_nat)
  have n: "shape0 ?x = 2"
    by (simp add: shape0_def)
  have "\<exists>s train test.
           train_test_split backwards times_exact sample_a (1 / 2) 7 = Inr s \<and>
           distinct (train @ test) \<and> set (train @ test) = {0..<shape0 ?x} \<and>
           length train = nat \<lfloor>times_exact (1 / 2) (real (shape0 ?x))\<rfloor> \<and>
           x_train s = Some (rows_at ?x train) \<and> y_train s = Some (rows_at ?y train) \<and>
           x_test s = Some (rows_at ?x test) \<and> y_test s = Some (rows_at ?y test) \<and>
           Some (shape0 (rows_at ?x train) + shape0 (rows_at ?x test)) = n_samples s \<and>
           x_data s = Some ?x \<and> y_data s = Some ?y \<and>
           (\<forall>permutation' fmul'.
              permutation' 7 (shape0 ?x) = backwards 7 (shape0 ?x) \<and>
              fmul' (1 / 2) (real (shape0 ?x)) = times_exact (1 / 2) (real (shape0 ?x)) \<longrightarrow>
              train_test_split permutation' fmul' sample_a (1 / 2) 7 = Inr s)"
  proof (rule train_test_split_partition)
    show "distinct (backwards 7 (shape0 ?x))" by (simp add: n b)
    show "set (backwards 7 (shape0 ?x)) = {0..<shape0 ?x}" by (auto simp: n b)
    show "x_data sample_a = Some ?x" "y_data sample_a = Some ?y"
      "n_samples sample_a = Some (shape0 ?x)"
      by (simp_all add: sample_a_def Sample_def shape0_def)
    show "shape0 ?y = shape0 ?x" by (simp add: shape0_def)
    show "(0::real) < 1 / 2" "(1::real) / 2 < 1" by simp_all
    show "0 < \<lfloor>times_exact (1 / 2) (real (shape0 ?x))\<rfloor>"
      "\<lfloor>times_exact (1 / 2) (real (shape0 ?x))\<rfloor> < int (shape0 ?x)"
      by (simp_all add: times_exact_def shape0_def)
    show "(0::int) \<le> 7" "(7::int) < 2 ^ 32" by simp_all
  qed
  then obtain s where s: "train_test_split backwards times_exact sample_a (1 / 2) 7 = Inr s"
    by blast
  have "train_test_split backwards times_exact sample_a (1 / 2) 7 =
          Inr (sample_a\<lparr>x_train := Some \<lparr>ncols = 2, rws = [[Fin 1, Fin 5]]\<rparr>,
                        x_test := Some \<lparr>ncols = 2, rws = [[Fin 3, Fin 4]]\<rparr>,
                        y_train := Some \<lparr>ncols = 1, rws = [[Fin 10]]\<rparr>,
                        y_test := Some \<lparr>ncols = 1, rws = [[Fin 20]]\<rparr>\<rparr>)"
    by code_simp
  with s show ?thesis by auto
qed

text \<open>The claim as the specification states it, for every fraction between 0 and 1 and
  every integer seed, fails where the library refuses the call: a negative seed, and a
  fraction that leaves the train set empty (one half of a single row).\<close>

theorem train_test_split_counterexample:
  "train_test_split backwards times_exact sample_a (1 / 2) (- 1)
     = Inl (ValueError ''Seed must be between 0 and 2**32 - 1'') \<and>
   train_test_split backwards times_exact sample_b (1 / 2) 7
     = Inl (ValueError ''the resulting train set will be empty'')"
  by code_simp

section \<open>Properties of generate and resume\<close>

lemma generate_begin_empty:
  assumes out: "save_incrementally \<longrightarrow> output_path \<noteq> None"
    and f: "fng env sampled_function = Some f"
    and sp: "sampled_params_of sampled_function params = Inr (PDict sp)"
    and gx: "get_x env spacing (PDict sp) (filter (is_varying sp) (map fst sp)) n = Inr x"
    and empty: "shape0 x = 0"
  shows "generate_begin env self params sampled_function n spacing save_incrementally output_path
           = Inl IndexError"
  using assms
  by (auto simp: generate_begin_def Let_def save_settings_def params_save_def folder_create_def
      resolve_fun_def save_x_def row_at_def split: option.splits)

lemma generate_begin_row:
  assumes out: "save_incrementally \<longrightarrow> output_path \<noteq> None"
    and f: "fng env sampled_function = Some f"
    and sp: "sampled_params_of sampled_function params = Inr (PDict sp)"
    and gx: "get_x env spacing (PDict sp) (filter (is_varying sp) (map fst sp)) n = Inr x"
    and row: "0 < shape0 x"
  shows "\<exists>st. generate_begin env self params sampled_function n spacing save_incrementally output_path
           = Inr st \<and>
           ls_fun st = f \<and>
           ls_rows st = tl (rws x) \<and>
           ls_y st = [fst (f (hd (rws x)) (Some (filter (is_varying sp) (map fst sp))) params None)] \<and>
           ls_model st = snd (snd (f (hd (rws x)) (Some (filter (is_varying sp) (map fst sp))) params None)) \<and>
           x_data (ls_self st) = Some x \<and> n_x (ls_self st) = Some (shape1 x) \<and>
           x_names (ls_self st) = Some (filter (is_varying sp) (map fst sp)) \<and>
           n_samples (ls_self st) = n_samples self \<and> y_data (ls_self st) = y_data self"
  using assms
  by (auto simp: generate_begin_def Let_def save_settings_def params_save_def folder_create_def
      resolve_fun_def save_x_def row_at_def rows_from_def shape0_def hd_conv_nth drop_Suc
      split: option.splits prod.splits)

lemma sample_y_rows:
  "fst (sample_y f names params model si out xs (ys, env))
     = ys @ map (\<lambda>x. fst (f x names params (Some model))) xs"
  by (induction xs arbitrary: ys env) (simp_all add: Let_def)

lemma np_array_result:
  "rs \<noteq> [] \<Longrightarrow>
     np_array rs = Inl (ValueError ragged_msg) \<or>
     np_array rs = Inr (A2 \<lparr>ncols = length (hd rs), rws = rs\<rparr>)"
  by (cases rs) (simp_all add: np_array_def)

lemma resume_loop_error:
  "resume_loop f names params model si p xs (y, env) = Inl e
     \<Longrightarrow> e = ValueError dim_msg \<or> e = TypeError"
  by (induction xs arbitrary: y env)
     (auto simp: Let_def vstack_row_def split: sum.splits if_splits option.splits)

lemma resume_loop_rows:
  "resume_loop f names params model si p xs (y, env) = Inr (y', env')
     \<Longrightarrow> rws y' = rws y @ map (\<lambda>x. fst (f x names params (Some model))) xs \<and> ncols y' = ncols y"
  by (induction xs arbitrary: y env)
     (auto simp: Let_def vstack_row_def split: sum.splits if_splits option.splits)


text \<open>
  Claim C10. \<open>generate\<close> evaluates the sampled function on \<open>x[0]\<close> before anything else is
  sampled, and so does \<open>resume\<close> whenever rows remain. Let everything before that access
  succeed (the output path is there when it is needed, the function and the parameters
  resolve, the sampler returns \<open>x\<close>; for \<open>resume\<close>, the settings resolve and the number of
  remaining rows is not zero). Then \<open>generate\<close> and \<open>resume\<close> raise \<open>IndexError\<close> exactly
  when \<open>x\<close> has no row: the access to row 0 is out of bounds for an empty \<open>x\<close> and succeeds
  for every \<open>x\<close> with at least one row.
\<close>

theorem bootstrap_needs_a_row:
  assumes out: "save_incrementally \<longrightarrow> output_path \<noteq> None"
    and f: "fng env sampled_function = Some f"
    and sp: "sampled_params_of sampled_function params = Inr (PDict sp)"
    and gx: "get_x env spacing (PDict sp) (filter (is_varying sp) (map fst sp)) n = Inr x"
    and st: "settings s = Some st" "lookup st ''n_samples'' = Inr nv"
      "lookup st ''sampled_function'' = Inr (PStr name)"
      "(if name = cobaya_loglike then lookup st ''cobaya'' else lookup st ''params'') = Inr ps"
    and g: "fng env' name = Some g"
    and remaining: "y_data s = Some y" "remaining_steps nv (shape0 y) = Inr r" "r \<noteq> 0"
    and xs: "x_data s = Some x'"
  shows "(generate env self params sampled_function n spacing save_incrementally output_path
            = Inl IndexError \<longleftrightarrow> shape0 x = 0) \<and>
         (resume env' s save_inc = Inl IndexError \<longleftrightarrow> shape0 x' = 0) \<and>
         (row_at x 0 = Inl IndexError \<longleftrightarrow> shape0 x = 0) \<and>
         (row_at x' 0 = Inl IndexError \<longleftrightarrow> shape0 x' = 0)"
proof (intro conjI)
  show "generate env self params sampled_function n spacing save_incrementally output_path
            = Inl IndexError \<longleftrightarrow> shape0 x = 0"
  proof (cases "shape0 x = 0")
    case True
    then show ?thesis
      using generate_begin_empty [OF out f sp gx] by (simp add: generate_def)
  next
    case False
    then obtain b where b: "generate_begin env self params sampled_function n spacing
        save_incrementally output_path = Inr b" and y: "ls_y b \<noteq> []"
      using generate_begin_row [OF out f sp gx, of self] by auto
    let ?r = "sample_y (ls_fun b) (x_names (ls_self b)) params (ls_model b) save_incrementally
                  (case output_path of None \<Rightarrow> [] | Some p \<Rightarrow> p) (ls_rows b) (ls_y b, ls_env b)"
    have "fst ?r \<noteq> []"
      using y by (simp add: sample_y_rows)
    then have "generate env self params sampled_function n spacing save_incrementally output_path
                 \<noteq> Inl IndexError"
      using np_array_result [of "fst ?r"]
      by (cases ?r) (auto simp: generate_def b)
    then show ?thesis using False by simp
  qed
  show "resume env' s save_inc = Inl IndexError \<longleftrightarrow> shape0 x' = 0"
  proof (cases "shape0 x' = 0")
    case True
    then show ?thesis
      using st g remaining xs by (simp add: resume_def resolve_fun_def row_at_def)
  next
    case False
    then have "resume env' s save_inc \<noteq> Inl IndexError"
      using st g remaining xs
      by (auto simp: resume_def resolve_fun_def row_at_def Let_def split: sum.splits
          dest: resume_loop_error)
    then show ?thesis using False by simp
  qed
  show "row_at x 0 = Inl IndexError \<longleftrightarrow> shape0 x = 0"
    by (simp add: row_at_def)
  show "row_at x' 0 = Inl IndexError \<longleftrightarrow> shape0 x' = 0"
    by (simp add: row_at_def)
qed

theorem bootstrap_needs_a_row_witness:
  "generate env_gen Sample params_ex ''twice'' 0 ''grid'' False None = Inl IndexError \<and>
   generate env_gen Sample params_ex ''twice'' 2 ''grid'' False None \<noteq> Inl IndexError \<and>
   resume env_gen sample_empty False = Inl IndexError"
proof -
  let ?sp = "[(''a'', PDict [(''prior'', PDict [(''min'', PNum 0), (''max'', PNum 1)])]),
              (''b'', PNum 3)]"
  let ?st = "[(''params'', params_ex), (''sampled_function'', PStr ''twice''),
              (''n_samples'', PInt 2), (''spacing'', PStr ''grid'')]"
  have out: "False \<longrightarrow> (None :: string option) \<noteq> None" by simp
  have f: "fng env_gen ''twice'' = Some twice" by (simp add: env_gen_def)
  have sp: "sampled_params_of ''twice'' params_ex = Inr (PDict ?sp)"
    by (simp add: sampled_params_of_def cobaya_loglike_def params_ex_def)
  have names: "filter (is_varying ?sp) (map fst ?sp) = [''a'']"
    by (simp add: is_varying_def)
  have gx0: "get_x env_gen ''grid'' (PDict ?sp) (filter (is_varying ?sp) (map fst ?sp)) 0
               = Inr \<lparr>ncols = 1, rws = []\<rparr>"
    unfolding names by (simp add: env_gen_def grid_def)
  have gx2: "get_x env_gen ''grid'' (PDict ?sp) (filter (is_varying ?sp) (map fst ?sp)) 2
               = Inr \<lparr>ncols = 1, rws = [[Fin 0], [Fin 1]]\<rparr>"
    unfolding names by (simp add: env_gen_def grid_def upt_rec numeral_nat)
  have st: "settings sample_empty = Some ?st" "lookup ?st ''n_samples'' = Inr (PInt 2)"
    "lookup ?st ''sampled_function'' = Inr (PStr ''twice'')"
    "(if ''twice'' = cobaya_loglike then lookup ?st ''cobaya'' else lookup ?st ''params'')
       = Inr params_ex"
    by (simp_all add: sample_empty_def Sample_def lookup_def cobaya_loglike_def)
  have remaining: "y_data sample_empty = Some \<lparr>ncols = 2, rws = []\<rparr>"
    "remaining_steps (PInt 2) (shape0 \<lparr>ncols = 2, rws = [] :: npfloat list list\<rparr>) = Inr 2"
    "(2::real) \<noteq> 0"
    by (simp_all add: sample_empty_def Sample_def remaining_steps_def shape0_def)
  have xs: "x_data sample_empty = Some \<lparr>ncols = 1, rws = []\<rparr>"
    by (simp add: sample_empty_def Sample_def)
  show ?thesis
    using bootstrap_needs_a_row [OF out f sp gx0 st f remaining xs, of Sample False]
      bootstrap_needs_a_row [OF out f sp gx2 st f remaining xs, of Sample False]
    by (simp add: shape0_def)
qed

section \<open>The counts after each operation\<close>

lemma masked_length:
  "length rs = length m \<Longrightarrow> length (filter snd (zip rs m)) = length (filter id m)"
  by (induction rs m rule: list_induct2) auto

lemma remove_non_finite_rows_agree:
  assumes "remove_non_finite_rows True x y = Inr (x', y')"
  shows "shape0 x' = shape0 y'"
proof -
  have l: "length (only_finites y) = shape0 x" "length (only_finites y) = shape0 y"
    using assms
    by (auto simp: remove_non_finite_rows_def mask_rows_def split: sum.splits if_splits)
  have "rws x' = map fst (filter snd (zip (rws x) (only_finites y)))"
    "rws y' = map fst (filter snd (zip (rws y) (only_finites y)))"
    using assms
    by (auto simp: remove_non_finite_rows_def mask_rows_def split: sum.splits if_splits)
  then show ?thesis
    using l masked_length [of "rws x" "only_finites y"] masked_length [of "rws y" "only_finites y"]
    by (simp add: shape0_def)
qed

lemma load_counts:
  assumes "load env self p p_y columns_x columns_y remove_non_finite = Inr (s, w)"
  shows "counted s \<and> (remove_non_finite \<longrightarrow> invariant s)"
proof -
  obtain x y x' y' where
    r: "remove_non_finite_rows remove_non_finite x y = Inr (x', y')"
    and s: "x_data s = Some x'" "y_data s = Some y'" "n_samples s = Some (shape0 x')"
      "n_x s = Some (shape1 x')" "n_y s = Some (shape1 y')"
    using assms
    by (auto simp: load_def split: sum.splits prod.splits)
  have "shape0 x' = shape0 y'" if "remove_non_finite"
    using r that by (auto dest: remove_non_finite_rows_agree)
  then show ?thesis
    using s by (auto simp: counted_def invariant_def arrays_agree_def)
qed

lemma those_Some_map: "those os = Some vs \<Longrightarrow> os = map Some vs"
  by (induction os arbitrary: vs) (auto split: option.splits)

lemma vstack_Inr:
  assumes "vstack as = Inr a"
  shows "as \<noteq> [] \<and> ncols a = ncols (hd as) \<and> (\<forall>b \<in> set as. ncols b = ncols a) \<and>
         shape0 a = sum_list (map shape0 as)"
  using assms
  by (cases as)
     (auto simp: vstack_def list_all_iff shape0_def [abs_def] length_concat comp_def
        split: if_splits)

lemma join_invariant:
  assumes inv: "\<forall>s \<in> set samples. invariant s" and j: "join samples = Inr r"
  shows "invariant r"
proof -
  obtain s0 rest where ss: "samples = s0 # rest"
    using j by (cases samples) (auto simp: join_def)
  then have ne: "samples \<noteq> []" by simp
  obtain xs x ys y ns where
    t: "those (map x_data samples) = Some xs" "those (map y_data samples) = Some ys"
      "those (map n_samples samples) = Some ns"
    and v: "vstack xs = Inr x" "vstack ys = Inr y"
    and r: "x_data r = Some x" "y_data r = Some y" "n_samples r = Some (sum_list ns)"
      "n_x r = n_x (hd samples)" "n_y r = n_y (hd samples)"
    using j unfolding join_nonempty [OF ne]
    by (auto simp: Sample_def split: if_splits option.splits sum.splits)
  have mx: "map x_data samples = map Some xs" and my: "map y_data samples = map Some ys"
    and mn: "map n_samples samples = map Some ns"
    using t by (simp_all add: those_Some_map)
  have lens: "length xs = length samples" "length ys = length samples" "length ns = length samples"
    using mx my mn by (metis length_map)+
  have pt: "\<forall>i < length samples. x_data (samples ! i) = Some (xs ! i) \<and>
              y_data (samples ! i) = Some (ys ! i) \<and> n_samples (samples ! i) = Some (ns ! i)"
  proof (intro allI impI)
    fix i assume i: "i < length samples"
    have "map x_data samples ! i = map Some xs ! i" "map y_data samples ! i = map Some ys ! i"
      "map n_samples samples ! i = map Some ns ! i"
      using mx my mn by simp_all
    then show "x_data (samples ! i) = Some (xs ! i) \<and>
              y_data (samples ! i) = Some (ys ! i) \<and> n_samples (samples ! i) = Some (ns ! i)"
      using i lens by simp
  qed
  have each: "\<forall>i < length samples. shape0 (ys ! i) = shape0 (xs ! i) \<and> ns ! i = shape0 (xs ! i)"
  proof (intro allI impI)
    fix i assume i: "i < length samples"
    then have "invariant (samples ! i)" using inv by simp
    then show "shape0 (ys ! i) = shape0 (xs ! i) \<and> ns ! i = shape0 (xs ! i)"
      using pt i by (auto simp: invariant_def arrays_agree_def)
  qed
  have "map shape0 ys = map shape0 xs" "ns = map shape0 xs"
    using each lens by (auto intro!: nth_equalityI)
  moreover have "shape0 x = sum_list (map shape0 xs)" "shape0 y = sum_list (map shape0 ys)"
    using vstack_Inr [OF v(1)] vstack_Inr [OF v(2)] by blast+
  ultimately have rows: "shape0 y = shape0 x" "sum_list ns = shape0 x"
    by simp_all
  have "invariant (hd samples)" using inv ne by simp
  moreover have "xs \<noteq> []" "ys \<noteq> []"
    using ne lens by auto
  then have "x_data (hd samples) = Some (hd xs)" "y_data (hd samples) = Some (hd ys)"
    using pt ne by (auto simp: hd_conv_nth)
  ultimately have hd_n: "n_x (hd samples) = Some (ncols (hd xs))"
      "n_y (hd samples) = Some (ncols (hd ys))"
    by (auto simp: invariant_def arrays_agree_def shape1_def)
  have "ncols x = ncols (hd xs)" "ncols y = ncols (hd ys)"
    using vstack_Inr [OF v(1)] vstack_Inr [OF v(2)] by blast+
  then have "n_x r = Some (shape1 x)" "n_y r = Some (shape1 y)"
    using r(4,5) hd_n by (simp_all add: shape1_def)
  then show ?thesis
    using r rows by (simp add: invariant_def arrays_agree_def)
qed

lemma generate_begin_Inr:
  assumes "generate_begin env self params sampled_function n spacing save_incrementally output_path
             = Inr b"
  shows "\<exists>x. x_data (ls_self b) = Some x \<and> n_x (ls_self b) = Some (shape1 x) \<and>
             0 < shape0 x \<and> ls_rows b = tl (rws x) \<and> length (ls_y b) = 1"
  using assms
  by (auto simp: generate_begin_def Let_def row_at_def rows_from_def drop_Suc
      split: if_splits sum.splits pvalue.splits prod.splits)

lemma generate_agree:
  assumes "generate env self params sampled_function n spacing save_incrementally output_path
             = Inr (s, env')"
  shows "arrays_agree s"
proof -
  obtain b where b: "generate_begin env self params sampled_function n spacing
      save_incrementally output_path = Inr b"
    using assms by (auto simp: generate_def split: sum.splits)
  obtain x where x: "x_data (ls_self b) = Some x" "n_x (ls_self b) = Some (shape1 x)"
      "0 < shape0 x" "ls_rows b = tl (rws x)" "length (ls_y b) = 1"
    using generate_begin_Inr [OF b] by blast
  let ?r = "sample_y (ls_fun b) (x_names (ls_self b)) params (ls_model b) save_incrementally
              (case output_path of None \<Rightarrow> [] | Some p \<Rightarrow> p) (ls_rows b) (ls_y b, ls_env b)"
  have len: "length (fst ?r) = shape0 x"
    using x by (simp add: sample_y_rows shape0_def)
  obtain y where y: "np_array (fst ?r) = Inr (A2 y)"
    and s: "s = (ls_self b)\<lparr>y_data := Some y, n_y := Some (shape1 y)\<rparr>"
    using assms
    by (cases ?r) (auto simp: generate_def b split: sum.splits ndarray.splits)
  have "fst ?r \<noteq> []" using len x(3) by auto
  then have "rws y = fst ?r"
    using y np_array_result [of "fst ?r"] by auto
  then show ?thesis
    using len x by (simp add: s arrays_agree_def shape0_def)
qed

lemma resume_invariant:
  assumes c: "counted s"
    and st: "settings s = Some st"
      "lookup st ''n_samples'' = Inr (PInt (int (shape0 (the (x_data s)))))"
    and le: "shape0 (the (y_data s)) \<le> shape0 (the (x_data s))"
    and r: "resume env s save_incrementally = Inr (s', env')"
  shows "invariant s'"
proof -
  obtain x y where xy: "x_data s = Some x" "y_data s = Some y"
    using c by (auto simp: counted_def)
  have n: "n_samples s = Some (shape0 x)" "n_x s = Some (shape1 x)" "n_y s = Some (shape1 y)"
    using c xy by (simp_all add: counted_def)
  have le': "shape0 y \<le> shape0 x" using le xy by simp
  have rem: "remaining_steps (PInt (int (shape0 x))) (shape0 y)
               = Inr (of_int (int (shape0 x) - int (shape0 y)))"
    by (simp add: remaining_steps_def)
  show ?thesis
  proof (cases "shape0 y = shape0 x")
    case True
    then have "remaining_steps (PInt (int (shape0 x))) (shape0 y) = Inr 0"
      by (simp add: remaining_steps_def)
    then have "s' = s"
      using r st xy by (simp add: resume_def)
    then show ?thesis
      using True xy n by (simp add: invariant_def arrays_agree_def)
  next
    case False
    then have nz: "(of_int (int (shape0 x) - int (shape0 y)) :: real) \<noteq> 0"
      by simp
    obtain f names ps model y' where
      loop: "resume_loop f names ps model save_incrementally (path s) (rows_from x (shape0 y)) (y, env)
               = Inr (y', env')"
      and s': "s' = s\<lparr>y_data := Some y'\<rparr>"
      using r st xy nz
      by (auto simp: resume_def rem Let_def split: sum.splits pvalue.splits)
    have "rws y' = rws y @ map (\<lambda>x. fst (f x names ps (Some model))) (rows_from x (shape0 y))"
      "ncols y' = ncols y"
      using resume_loop_rows [OF loop] by simp_all
    then have "shape0 y' = shape0 x" "shape1 y' = shape1 y"
      using le' by (simp_all add: shape0_def shape1_def rows_from_def)
    then show ?thesis
      using xy n by (simp add: s' invariant_def arrays_agree_def)
  qed
qed

text \<open>
  Claim C3, as the code has it. After \<open>load\<close>, \<open>n_samples\<close>, \<open>n_x\<close> and \<open>n_y\<close> are the rows
  of \<open>x\<close>, the columns of \<open>x\<close> and the columns of \<open>y\<close>, and \<open>y\<close> has as many rows as \<open>x\<close> when
  \<open>remove_non_finite\<close> was requested (a partial sample keeps fewer). After \<open>generate\<close>, \<open>x\<close>
  and \<open>y\<close> have the same number of rows, \<open>n_x\<close> is the columns of \<open>x\<close> and \<open>n_y\<close> the columns
  of \<open>y\<close>. After \<open>resume\<close> of a sample whose counts are those of its arrays, whose settings
  ask for as many rows as \<open>x\<close> has and whose \<open>y\<close> has no more rows than \<open>x\<close>, the sample
  satisfies the whole invariant. \<open>join\<close> of samples that satisfy the invariant returns one
  that satisfies it.
\<close>

theorem counts_after_operations:
  "(load env self p p_y columns_x columns_y remove_non_finite = Inr (s1, w) \<longrightarrow>
      counted s1 \<and> (remove_non_finite \<longrightarrow> invariant s1)) \<and>
   (generate env self params sampled_function n spacing save_incrementally output_path
      = Inr (s2, env2) \<longrightarrow> arrays_agree s2) \<and>
   (counted s3 \<and> settings s3 = Some st \<and>
    lookup st ''n_samples'' = Inr (PInt (int (shape0 (the (x_data s3))))) \<and>
    shape0 (the (y_data s3)) \<le> shape0 (the (x_data s3)) \<and>
    resume env s3 save_inc = Inr (s4, env4) \<longrightarrow> invariant s4) \<and>
   ((\<forall>s \<in> set samples. invariant s) \<and> join samples = Inr r \<longrightarrow> invariant r)"
proof -
  have a: "load env self p p_y columns_x columns_y remove_non_finite = Inr (s1, w) \<longrightarrow>
      counted s1 \<and> (remove_non_finite \<longrightarrow> invariant s1)"
    using load_counts [of env self p p_y columns_x columns_y remove_non_finite s1 w] by blast
  have b: "generate env self params sampled_function n spacing save_incrementally output_path
      = Inr (s2, env2) \<longrightarrow> arrays_agree s2"
    using generate_agree [of env self params sampled_function n spacing save_incrementally
        output_path s2 env2] by blast
  have c: "counted s3 \<and> settings s3 = Some st \<and>
    lookup st ''n_samples'' = Inr (PInt (int (shape0 (the (x_data s3))))) \<and>
    shape0 (the (y_data s3)) \<le> shape0 (the (x_data s3)) \<and>
    resume env s3 save_inc = Inr (s4, env4) \<longrightarrow> invariant s4"
    using resume_invariant [of s3 st env save_inc s4 env4] by blast
  have d: "(\<forall>s \<in> set samples. invariant s) \<and> join samples = Inr r \<longrightarrow> invariant r"
    using join_invariant [of samples r] by blast
  show ?thesis
    using a b c d by (intro conjI)
qed

theorem counts_after_operations_witness:
  "\<exists>s1 w s2 env2 s4 env4 r.
     load env_pair Sample ''x.txt'' (Some ''y.txt'') (Slice None None) (Slice None None) True
       = Inr (s1, w) \<and> invariant s1 \<and>
     generate env_gen Sample params_ex ''twice'' 2 ''grid'' False None = Inr (s2, env2) \<and>
     arrays_agree s2 \<and>
     resume env_gen sample_partial False = Inr (s4, env4) \<and> invariant s4 \<and>
     join [sample_a, sample_b] = Inr r \<and> invariant r"
proof -
  let ?st = "[(''params'', params_ex), (''sampled_function'', PStr ''twice''),
              (''n_samples'', PInt 3), (''spacing'', PStr ''grid'')]"
  have "map_sum id (\<lambda>r. ()) (load env_pair Sample ''x.txt'' (Some ''y.txt'') (Slice None None)
          (Slice None None) True) = Inr ()"
    by code_simp
  then obtain s1 w where 1: "load env_pair Sample ''x.txt'' (Some ''y.txt'') (Slice None None)
          (Slice None None) True = Inr (s1, w)"
    by (cases "load env_pair Sample ''x.txt'' (Some ''y.txt'') (Slice None None)
          (Slice None None) True") auto
  have "map_sum id (\<lambda>r. ()) (generate env_gen Sample params_ex ''twice'' 2 ''grid'' False None)
          = Inr ()"
    by code_simp
  then obtain s2 env2 where 2: "generate env_gen Sample params_ex ''twice'' 2 ''grid'' False None
          = Inr (s2, env2)"
    by (cases "generate env_gen Sample params_ex ''twice'' 2 ''grid'' False None") auto
  have "map_sum id (\<lambda>r. ()) (resume env_gen sample_partial False) = Inr ()"
    by code_simp
  then obtain s4 env4 where 3: "resume env_gen sample_partial False = Inr (s4, env4)"
    by (cases "resume env_gen sample_partial False") auto
  have "map_sum id (\<lambda>r. ()) (join [sample_a, sample_b]) = Inr ()"
    by code_simp
  then obtain r where 4: "join [sample_a, sample_b] = Inr r"
    by (cases "join [sample_a, sample_b]") auto
  have c: "counted sample_partial" "settings sample_partial = Some ?st"
    "lookup ?st ''n_samples'' = Inr (PInt (int (shape0 (the (x_data sample_partial)))))"
    "shape0 (the (y_data sample_partial)) \<le> shape0 (the (x_data sample_partial))"
    by (simp_all add: counted_def sample_partial_def Sample_def shape0_def shape1_def lookup_def)
  have i: "\<forall>s \<in> set [sample_a, sample_b]. invariant s"
    by (simp add: invariant_def arrays_agree_def sample_a_def sample_b_def Sample_def
        shape0_def shape1_def)
  have "counted s1 \<and> (True \<longrightarrow> invariant s1)"
    using counts_after_operations [THEN conjunct1, of env_pair Sample "''x.txt''"
        "Some ''y.txt''" "Slice None None" "Slice None None" True s1 w] 1
    by blast
  moreover have "arrays_agree s2"
    using counts_after_operations [THEN conjunct2, THEN conjunct1, of env_gen Sample params_ex
        "''twice''" 2 "''grid''" False None s2 env2] 2
    by blast
  moreover have "invariant s4"
    using counts_after_operations [THEN conjunct2, THEN conjunct2, THEN conjunct1,
        of sample_partial ?st env_gen False s4 env4] 3 c
    by blast
  moreover have "invariant r"
    using counts_after_operations [THEN conjunct2, THEN conjunct2, THEN conjunct2,
        of "[sample_a, sample_b]" r] 4 i
    by blast
  ultimately show ?thesis
    using 1 2 3 4 by blast
qed

text \<open>The claim as the specification states it fails for \<open>generate\<close>, which sets \<open>n_x\<close> and
  \<open>n_y\<close> and never \<open>n_samples\<close>: after two rows were generated on a fresh sample,
  \<open>n_samples\<close> is still unset. It also fails for \<open>load\<close> of a partial sample, written by a
  run that was stopped after two of three rows: \<open>n_samples\<close> is 3, the rows of \<open>x\<close>, while
  \<open>y\<close> has 2 rows.\<close>

theorem counts_counterexample:
  "map_sum id (\<lambda>r. (n_samples (fst r), map_option shape0 (x_data (fst r)),
                     map_option shape0 (y_data (fst r))))
     (generate env_gen Sample params_ex ''twice'' 2 ''grid'' False None)
     = Inr (None, Some 2, Some 2) \<and>
   (case generate_stopped 2 env_gen Sample params_ex ''twice'' 3 ''grid'' ''out'' of
      Inl e \<Rightarrow> Inl e
    | Inr env1 \<Rightarrow>
        map_sum id (\<lambda>r. (n_samples (fst r), map_option shape0 (x_data (fst r)),
                          map_option shape0 (y_data (fst r))))
          (load env1 Sample ''out'' None (Slice None None) (Slice None None) False))
     = Inr (Some 3, Some 3, Some 2)"
  by code_simp

section \<open>Resuming a stopped run\<close>

text \<open>What \<open>resume\<close> computes is right when it is given the right partial sample. Let the
  sampled function return rows of one length. An uninterrupted run that does not save
  returns the first row of \<open>y\<close> from the bootstrap call and the others from the loop
  (\<open>generate_unsaved\<close>); and from a sample that holds the settings, \<open>x\<close>, the names and the
  first \<open>k\<close> of these rows, for any \<open>0 < k \<le> N\<close>, \<open>resume\<close> returns the same \<open>y\<close>
  (\<open>resume_partial\<close>). The defect below lies in what \<open>load\<close> returns for \<open>k = 1\<close>.\<close>

lemma resume_loop_returns:
  assumes "\<forall>r \<in> set xs. length (fst (f r names params (Some model))) = ncols y"
    and "si \<longrightarrow> p \<noteq> None"
  shows "\<exists>env'. resume_loop f names params model si p xs (y, env)
           = Inr (y\<lparr>rws := rws y @ map (\<lambda>r. fst (f r names params (Some model))) xs\<rparr>, env')"
  using assms
proof (induction xs arbitrary: y env)
  case Nil
  then show ?case by simp
next
  case (Cons r rs)
  let ?v = "fst (f r names params (Some model))"
  let ?y = "y\<lparr>rws := rws y @ [?v]\<rparr>"
  have v: "vstack_row y ?v = Inr ?y"
    using Cons.prems(1) by (simp add: vstack_row_def)
  have rest: "\<forall>r \<in> set rs. length (fst (f r names params (Some model))) = ncols ?y"
    using Cons.prems(1) by simp
  show ?case
  proof (cases si)
    case True
    then obtain d where d: "p = Some d" using Cons.prems(2) by auto
    show ?thesis
      using Cons.IH [OF rest Cons.prems(2), of "append_y env d ?v"] v True d
      by (simp add: Let_def)
  next
    case False
    show ?thesis
      using Cons.IH [OF rest Cons.prems(2), of env] v False
      by (simp add: Let_def)
  qed
qed

lemma sample_y_unsaved:
  "sample_y f names params model False out xs (ys, env)
     = (ys @ map (\<lambda>r. fst (f r names params (Some model))) xs, env)"
  by (induction xs arbitrary: ys) (simp_all add: Let_def)

lemma generate_begin_unsaved:
  "generate_begin env self params sampled_function n spacing False output_path = Inr b
     \<Longrightarrow> ls_env b = env"
  by (auto simp: generate_begin_def Let_def
      split: if_splits sum.splits pvalue.splits prod.splits)

lemma generate_unsaved:
  assumes f: "fng env sampled_function = Some f"
    and sp: "sampled_params_of sampled_function params = Inr (PDict sp)"
    and names: "names = Some (filter (is_varying sp) (map fst sp))"
    and gx: "get_x env spacing (PDict sp) (the names) n = Inr x"
    and row: "0 < shape0 x"
    and y0: "y0 = fst (f (hd (rws x)) names params None)"
    and model: "model = snd (snd (f (hd (rws x)) names params None))"
    and same: "\<forall>r \<in> set (tl (rws x)). length (fst (f r names params (Some model))) = length y0"
  shows "\<exists>gs. generate env self params sampled_function n spacing False None = Inr (gs, env) \<and>
           y_data gs = Some \<lparr>ncols = length y0,
                             rws = y0 # map (\<lambda>r. fst (f r names params (Some model))) (tl (rws x))\<rparr> \<and>
           x_data gs = Some x \<and> x_names gs = names"
proof -
  let ?g = "\<lambda>r. fst (f r names params (Some model))"
  have out: "False \<longrightarrow> (None :: string option) \<noteq> None" by simp
  have gx': "get_x env spacing (PDict sp) (filter (is_varying sp) (map fst sp)) n = Inr x"
    using gx names by simp
  obtain b where b: "generate_begin env self params sampled_function n spacing False None = Inr b"
    and fields: "ls_fun b = f" "ls_rows b = tl (rws x)" "ls_y b = [y0]" "ls_model b = model"
      "x_names (ls_self b) = names" "x_data (ls_self b) = Some x"
    using generate_begin_row [OF out f sp gx' row, of self] names y0 model by auto
  have env: "ls_env b = env"
    using b by (rule generate_begin_unsaved)
  have arr: "np_array (y0 # map ?g (tl (rws x)))
               = Inr (A2 \<lparr>ncols = length y0, rws = y0 # map ?g (tl (rws x))\<rparr>)"
    using same by (simp add: np_array_def list_all_iff)
  show ?thesis
    using arr by (simp add: generate_def b fields env sample_y_unsaved)
qed

lemma resume_partial:
  assumes f: "fng env sampled_function = Some f"
    and st: "settings s = Some [(if sampled_function = cobaya_loglike then ''cobaya'' else ''params'', params),
                                (''sampled_function'', PStr sampled_function),
                                (''n_samples'', PInt (int (shape0 x))),
                                (''spacing'', PStr spacing)]"
    and x: "x_data s = Some x" "x_names s = names"
    and y0: "y0 = fst (f (hd (rws x)) names params None)"
    and model: "model = snd (snd (f (hd (rws x)) names params None))"
    and same: "\<forall>r \<in> set (tl (rws x)). length (fst (f r names params (Some model))) = length y0"
    and y: "y_data s = Some \<lparr>ncols = length y0,
              rws = take k (y0 # map (\<lambda>r. fst (f r names params (Some model))) (tl (rws x)))\<rparr>"
    and k: "0 < k" "k \<le> shape0 x"
    and p: "save_incrementally \<longrightarrow> path s \<noteq> None"
  shows "\<exists>s' env'. resume env s save_incrementally = Inr (s', env') \<and>
           y_data s' = Some \<lparr>ncols = length y0,
                             rws = y0 # map (\<lambda>r. fst (f r names params (Some model))) (tl (rws x))\<rparr>"
proof -
  let ?g = "\<lambda>r. fst (f r names params (Some model))"
  let ?ys = "y0 # map ?g (tl (rws x))"
  let ?y = "\<lparr>ncols = length y0, rws = take k ?ys\<rparr>"
  let ?st = "[(if sampled_function = cobaya_loglike then ''cobaya'' else ''params'', params),
              (''sampled_function'', PStr sampled_function),
              (''n_samples'', PInt (int (shape0 x))),
              (''spacing'', PStr spacing)]"
  have ne: "rws x \<noteq> []" using k by (auto simp: shape0_def)
  have len: "length ?ys = shape0 x"
    using ne by (simp add: shape0_def)
  have rows_k: "shape0 ?y = k"
    using k len by (simp add: shape0_def)
  have lk: "lookup ?st ''n_samples'' = Inr (PInt (int (shape0 x)))"
    "lookup ?st ''sampled_function'' = Inr (PStr sampled_function)"
    "(if sampled_function = cobaya_loglike then lookup ?st ''cobaya'' else lookup ?st ''params'')
       = Inr params"
    by (simp_all add: lookup_def)
  have rem: "remaining_steps (PInt (int (shape0 x))) k = Inr (of_int (int (shape0 x) - int k))"
    by (simp add: remaining_steps_def)
  show ?thesis
  proof (cases "k = shape0 x")
    case True
    then have "take k ?ys = ?ys" using len by simp
    moreover have "resume env s save_incrementally = Inr (s, env)"
      using st y lk(1) rows_k rem True by (simp add: resume_def)
    ultimately show ?thesis using y by simp
  next
    case False
    then have nz: "(of_int (int (shape0 x) - int k) :: real) \<noteq> 0" by simp
    have r0: "row_at x 0 = Inr (hd (rws x))"
      using ne by (simp add: row_at_def shape0_def hd_conv_nth)
    have sub: "set (drop k (rws x)) \<subseteq> set (tl (rws x))"
      using k(1) by (cases k) (auto simp: drop_Suc dest: in_set_dropD)
    then have "\<forall>r \<in> set (rows_from x k). length (fst (f r names params (Some model))) = ncols ?y"
      using same by (auto simp: rows_from_def)
    then obtain env' where loop:
      "resume_loop f names params model save_incrementally (path s) (rows_from x k) (?y, env)
         = Inr (?y\<lparr>rws := rws ?y @ map ?g (rows_from x k)\<rparr>, env')"
      using resume_loop_returns [of "rows_from x k" f names params model ?y save_incrementally
          "path s" env] p by blast
    have "take k ?ys @ map ?g (drop k (rws x)) = ?ys"
    proof -
      obtain j where j: "k = Suc j" using k(1) by (cases k) auto
      have "map ?g (take j (tl (rws x))) @ map ?g (drop j (tl (rws x))) = map ?g (tl (rws x))"
        by (simp only: map_append [symmetric] append_take_drop_id)
      then show ?thesis
        by (simp add: j drop_Suc take_map)
    qed
    then have final: "?y\<lparr>rws := rws ?y @ map ?g (rows_from x k)\<rparr> = \<lparr>ncols = length y0, rws = ?ys\<rparr>"
      by (simp add: rows_from_def)
    have "resume env s save_incrementally
            = Inr (s\<lparr>y_data := Some (?y\<lparr>rws := rws ?y @ map ?g (rows_from x k)\<rparr>)\<rparr>, env')"
      using st y x lk rows_k rem nz f r0 loop model
      by (simp add: resume_def resolve_fun_def Let_def)
    then show ?thesis
      using final by simp
  qed
qed

text \<open>For comparison: stopped after two of three rows, the run is resumed to the same \<open>y\<close> as
  the uninterrupted one.\<close>

lemma resume_after_two_rows:
  "map_sum id y_data (stop_and_resume 2 env_gen params_ex ''twice'' 3 ''grid'' ''out'')
     = Inr (Some \<lparr>ncols = 2, rws = [[Fin 0, Fin 0], [Fin 1, Fin 1], [Fin 2, Fin 2]]\<rparr>) \<and>
   map_sum id (\<lambda>r. y_data (fst r))
     (generate env_gen Sample params_ex ''twice'' 3 ''grid'' True (Some ''out''))
     = Inr (Some \<lparr>ncols = 2, rws = [[Fin 0, Fin 0], [Fin 1, Fin 1], [Fin 2, Fin 2]]\<rparr>)"
  by code_simp

text \<open>Stopped after the first of three rows, \<open>resume\<close> raises: the \<open>y\<close> that \<open>load\<close> returns
  has one column, and a row of two numbers cannot be stacked under it.\<close>

lemma resume_after_first_row_of_three:
  "stop_and_resume 1 env_gen params_ex ''twice'' 3 ''grid'' ''out'' = Inl (ValueError dim_msg)"
  by code_simp

text \<open>
  Claim C1, at a failing input. A run of two rows with a function of two outputs is
  stopped when the first row of \<open>y\<close> is written (\<open>k = 1\<close>, \<open>N = 2\<close>). The file of \<open>y\<close> then
  holds one row of two numbers; \<open>np.genfromtxt\<close> returns it one-dimensional and
  \<open>_load_array\<close> makes a column of it, so the loaded \<open>y\<close> has two rows of one number.
  \<open>resume\<close> finds as many rows as the settings ask for and returns with nothing done:
  the resumed \<open>y\<close> is a column holding the first row, where the uninterrupted run gives two
  rows of two numbers.
\<close>

theorem resume_after_first_row:
  "map_sum id (\<lambda>r. y_data (fst r))
     (generate env_gen Sample params_ex ''twice'' 2 ''grid'' True (Some ''out''))
     = Inr (Some \<lparr>ncols = 2, rws = [[Fin 0, Fin 0], [Fin 1, Fin 1]]\<rparr>) \<and>
   map_sum id y_data (stop_and_resume 1 env_gen params_ex ''twice'' 2 ''grid'' ''out'')
     = Inr (Some \<lparr>ncols = 1, rws = [[Fin 0], [Fin 0]]\<rparr>)"
  by code_simp

end
